theory Spec2Isabelle
  imports Complex_Main
begin

section \<open>Data model: cells and column-oriented frames\<close>

text \<open>
  The pipeline works on pandas data frames. A frame is a row count together with an
  ordered list of named columns; every operation of the source is column-wise
  (\<^verbatim>\<open>df[col] = df[col].apply(f)\<close>, \<^verbatim>\<open>df[col].astype(float)\<close>,
  \<^verbatim>\<open>df['a'] / df['b']\<close>), so the model keeps columns as the unit.

  A cell is one of the scalar values the pipeline handles. \<open>CNaN\<close> is the missing-value
  marker that \<^verbatim>\<open>read_csv\<close> produces and that \<^verbatim>\<open>pd.isna\<close> recognises. Python's
  \<^verbatim>\<open>None\<close>, which \<^verbatim>\<open>pd.isna\<close> recognises too but \<^verbatim>\<open>str\<close> prints as
  \<^verbatim>\<open>None\<close>, is not a cell of the model: the frames of the pipeline come from
  \<^verbatim>\<open>read_csv\<close>, which never produces it.
  Floating-point numbers are modelled by the real number they denote (binary rounding is
  abstracted away); the two infinities that float division can produce are kept as
  \<open>CInf True\<close> (positive) and \<open>CInf False\<close> (negative).
\<close>

datatype cell =
    CNaN
  | CStr string
  | CFloat real
  | CInf bool
  | CInt int
  | CBool bool
  | CDate int nat nat

record frame =
  nrows :: nat
  cols :: "(string \<times> cell list) list"

definition columns :: "frame \<Rightarrow> string list" where
  "columns df = map fst (cols df)"

definition get_col :: "frame \<Rightarrow> string \<Rightarrow> cell list option" where
  "get_col df c = map_of (cols df) c"

text \<open>\<^verbatim>\<open>df[c] = v\<close>: an existing column is replaced in place, a new one is appended.\<close>

fun assign :: "string \<Rightarrow> cell list \<Rightarrow> (string \<times> cell list) list \<Rightarrow> (string \<times> cell list) list" where
  "assign c v [] = [(c, v)]"
| "assign c v ((k, x) # r) = (if k = c then (k, v) # r else (k, x) # assign c v r)"

definition set_col :: "frame \<Rightarrow> string \<Rightarrow> cell list \<Rightarrow> frame" where
  "set_col df c v = df\<lparr>cols := assign c v (cols df)\<rparr>"

definition pd_isna :: "cell \<Rightarrow> bool" where
  "pd_isna x = (x = CNaN)"

section \<open>In-process transform (etl/transform.py)\<close>

subsection \<open>Null handling\<close>

definition fillna :: "cell \<Rightarrow> cell list \<Rightarrow> cell list" where
  "fillna v xs = map (\<lambda>x. if pd_isna x then v else x) xs"

text \<open>
  \<^verbatim>\<open>handle_missing_values\<close>: only the column \<^verbatim>\<open>complemento\<close> is touched, and only
  when the frame has it. The two null counts of the source are printed, not returned.
\<close>

definition handle_missing_values :: "frame \<Rightarrow> frame" where
  "handle_missing_values df =
     (case get_col df ''complemento'' of
        Some xs \<Rightarrow> set_col df ''complemento'' (fillna (CStr ''Sem complemento'') xs)
      | None \<Rightarrow> df)"

subsection \<open>Python errors and numeric comparison\<close>

datatype error = TypeError | ValueError | KeyError | AttributeError | IntegrityError | OperationalError

text \<open>
  \<^verbatim>\<open>x <= k\<close> and \<^verbatim>\<open>x > k\<close> for a cell \<open>x\<close> and a number \<open>k\<close>, as Python evaluates
  them: numbers compare by value (a bool counts as 0 or 1), NaN compares false with
  everything, a string or a timestamp against a number raises \<^verbatim>\<open>TypeError\<close>.
\<close>

fun py_le :: "cell \<Rightarrow> real \<Rightarrow> error + bool" where
  "py_le CNaN k = Inr False"
| "py_le (CStr s) k = Inl TypeError"
| "py_le (CFloat r) k = Inr (r \<le> k)"
| "py_le (CInf pos) k = Inr (\<not> pos)"
| "py_le (CInt i) k = Inr (real_of_int i \<le> k)"
| "py_le (CBool b) k = Inr ((if b then 1 else 0) \<le> k)"
| "py_le (CDate y m d) k = Inl TypeError"

fun py_gt :: "cell \<Rightarrow> real \<Rightarrow> error + bool" where
  "py_gt CNaN k = Inr False"
| "py_gt (CStr s) k = Inl TypeError"
| "py_gt (CFloat r) k = Inr (r > k)"
| "py_gt (CInf pos) k = Inr pos"
| "py_gt (CInt i) k = Inr (real_of_int i > k)"
| "py_gt (CBool b) k = Inr ((if b then 1 else 0) > k)"
| "py_gt (CDate y m d) k = Inl TypeError"

subsection \<open>Text of a cell and parsing of floats\<close>

definition is_digit :: "char \<Rightarrow> bool" where
  "is_digit c = (c \<in> set ''0123456789'')"

definition digit_val :: "char \<Rightarrow> nat" where
  "digit_val c = of_char c - 48"

definition digit_char :: "nat \<Rightarrow> char" where
  "digit_char n = char_of (48 + n)"

text \<open>The value of a list of decimal digits, most significant first.\<close>

definition digits_val :: "nat list \<Rightarrow> nat" where
  "digits_val ds = foldl (\<lambda>a d. 10 * a + d) 0 ds"

function show_nat :: "nat \<Rightarrow> string" where
  "show_nat n = (if n < 10 then [digit_char n] else show_nat (n div 10) @ [digit_char (n mod 10)])"
  by pat_completeness auto
termination
  by (relation "measure id") auto

definition show_int :: "int \<Rightarrow> string" where
  "show_int i = (if i < 0 then CHR ''-'' # show_nat (nat (- i)) else show_nat (nat i))"

definition pad2 :: "nat \<Rightarrow> string" where
  "pad2 n = (if n < 10 then CHR ''0'' # show_nat n else show_nat n)"

text \<open>
  \<^verbatim>\<open>str(x)\<close>. The shortest round-trip text Python prints for a float is outside the
  model, so it is the parameter \<open>float_repr\<close>. A timestamp at midnight prints as
  \<^verbatim>\<open>YYYY-MM-DD 00:00:00\<close>.
\<close>

fun py_str :: "(real \<Rightarrow> string) \<Rightarrow> cell \<Rightarrow> string" where
  "py_str float_repr CNaN = ''nan''"
| "py_str float_repr (CStr s) = s"
| "py_str float_repr (CFloat r) = float_repr r"
| "py_str float_repr (CInf pos) = (if pos then ''inf'' else ''-inf'')"
| "py_str float_repr (CInt i) = show_int i"
| "py_str float_repr (CBool b) = (if b then ''True'' else ''False'')"
| "py_str float_repr (CDate y m d) =
     show_int y @ ''-'' @ pad2 m @ ''-'' @ pad2 d @ '' 00:00:00''"

text \<open>\<^verbatim>\<open>s.replace(old, new)\<close> for a pattern \<open>old\<close> of one character.\<close>

definition replace_char :: "char \<Rightarrow> string \<Rightarrow> string \<Rightarrow> string" where
  "replace_char old new s = concat (map (\<lambda>c. if c = old then new else [c]) s)"

text \<open>
  Python's \<^verbatim>\<open>float(s)\<close> on a string: surrounding whitespace is stripped, then the
  whole rest must be an optionally signed \<^verbatim>\<open>inf\<close>, \<^verbatim>\<open>infinity\<close> or \<^verbatim>\<open>nan\<close> (in
  any letter case) or a decimal number: digits with at most one point, an optional
  exponent, single underscores allowed between digits. Anything else raises
  \<^verbatim>\<open>ValueError\<close>. The value is the exact decimal value.
\<close>

definition is_space :: "char \<Rightarrow> bool" where
  "is_space c = ((of_char c :: nat) \<in> {9, 10, 11, 12, 13, 28, 29, 30, 31, 32, 133, 160})"

definition strip :: "string \<Rightarrow> string" where
  "strip s = rev (dropWhile is_space (rev (dropWhile is_space s)))"

definition lower_char :: "char \<Rightarrow> char" where
  "lower_char c = (if 65 \<le> (of_char c :: nat) \<and> (of_char c :: nat) \<le> 90
                   then char_of ((of_char c :: nat) + 32) else c)"

fun digits_tail :: "string \<Rightarrow> nat list \<times> string" where
  "digits_tail [] = ([], [])"
| "digits_tail [c] = (if is_digit c then ([digit_val c], []) else ([], [c]))"
| "digits_tail (c # d # cs) =
     (if is_digit c then (case digits_tail (d # cs) of (ds, r) \<Rightarrow> (digit_val c # ds, r))
      else if c = CHR ''_'' \<and> is_digit d then
        (case digits_tail cs of (ds, r) \<Rightarrow> (digit_val d # ds, r))
      else ([], c # d # cs))"

definition digitpart :: "string \<Rightarrow> (nat list \<times> string) option" where
  "digitpart s =
     (case s of
        [] \<Rightarrow> None
      | c # cs \<Rightarrow> if is_digit c then (case digits_tail cs of (ds, r) \<Rightarrow> Some (digit_val c # ds, r))
                  else None)"

text \<open>\<^verbatim>\<open>number ::= [digitpart] "." digitpart | digitpart ["."]\<close>: integer digits,
  fraction digits and the rest of the string.\<close>

definition py_number :: "string \<Rightarrow> (nat list \<times> nat list \<times> string) option" where
  "py_number s =
     (case digitpart s of
        Some (ip, r) \<Rightarrow>
          (case r of
             [] \<Rightarrow> Some (ip, [], [])
           | c # r' \<Rightarrow>
               if c = CHR ''.'' then
                 (case digitpart r' of
                    Some (fp, r'') \<Rightarrow> Some (ip, fp, r'')
                  | None \<Rightarrow> Some (ip, [], r'))
               else Some (ip, [], r))
      | None \<Rightarrow>
          (case s of
             [] \<Rightarrow> None
           | c # r' \<Rightarrow>
               if c = CHR ''.'' then
                 (case digitpart r' of
                    Some (fp, r'') \<Rightarrow> Some ([], fp, r'')
                  | None \<Rightarrow> None)
               else None))"

text \<open>An optional sign: the sign (true for minus) and the rest.\<close>

definition take_sign :: "string \<Rightarrow> bool \<times> string" where
  "take_sign s =
     (case s of
        [] \<Rightarrow> (False, [])
      | c # cs \<Rightarrow> if c = CHR ''-'' then (True, cs) else if c = CHR ''+'' then (False, cs)
                  else (False, s))"

text \<open>\<^verbatim>\<open>exponent ::= ("e" | "E") [sign] digitpart\<close>, which must reach the end of the
  string; no exponent at all is the exponent 0.\<close>

definition py_exponent :: "string \<Rightarrow> int option" where
  "py_exponent s =
     (case s of
        [] \<Rightarrow> Some 0
      | c # cs \<Rightarrow>
          if c = CHR ''e'' \<or> c = CHR ''E'' then
            (case take_sign cs of
               (neg, r) \<Rightarrow>
                 (case digitpart r of
                    Some (ds, []) \<Rightarrow> Some (if neg then - int (digits_val ds) else int (digits_val ds))
                  | Some (ds, x # xs) \<Rightarrow> None
                  | None \<Rightarrow> None))
          else None)"

definition scale10 :: "real \<Rightarrow> int \<Rightarrow> real" where
  "scale10 m e = (if 0 \<le> e then m * 10 ^ nat e else m / 10 ^ nat (- e))"

definition decimal_value :: "nat list \<Rightarrow> nat list \<Rightarrow> real" where
  "decimal_value ip fp = real (digits_val ip) + real (digits_val fp) / 10 ^ length fp"

definition py_float :: "string \<Rightarrow> error + cell" where
  "py_float s =
     (case take_sign (strip s) of
        (neg, body) \<Rightarrow>
          if map lower_char body \<in> {''inf'', ''infinity''} then Inr (CInf (\<not> neg))
          else if map lower_char body = ''nan'' then Inr CNaN
          else
            (case py_number body of
               None \<Rightarrow> Inl ValueError
             | Some (ip, fp, r) \<Rightarrow>
                 (case py_exponent r of
                    None \<Rightarrow> Inl ValueError
                  | Some e \<Rightarrow>
                      Inr (CFloat (scale10 ((if neg then - 1 else 1) * decimal_value ip fp) e)))))"

subsection \<open>Type coercion\<close>

text \<open>\<^verbatim>\<open>convert_currency_format\<close>: a null is returned as it is, anything else as its
  text with every comma replaced by a point.\<close>

definition convert_currency_format :: "(real \<Rightarrow> string) \<Rightarrow> cell \<Rightarrow> cell" where
  "convert_currency_format float_repr v =
     (if pd_isna v then v else CStr (replace_char CHR '','' ''.'' (py_str float_repr v)))"

text \<open>
  One element of \<^verbatim>\<open>Series.astype(float)\<close>: a string goes through \<^verbatim>\<open>float\<close>, a
  number keeps its value, a timestamp raises.
\<close>

fun astype_float1 :: "cell \<Rightarrow> error + cell" where
  "astype_float1 CNaN = Inr CNaN"
| "astype_float1 (CStr s) = py_float s"
| "astype_float1 (CFloat r) = Inr (CFloat r)"
| "astype_float1 (CInf pos) = Inr (CInf pos)"
| "astype_float1 (CInt i) = Inr (CFloat (real_of_int i))"
| "astype_float1 (CBool b) = Inr (CFloat (if b then 1 else 0))"
| "astype_float1 (CDate y m d) = Inl TypeError"

text \<open>An element-wise operation on a column raises as soon as one element raises.\<close>

fun map_err :: "('a \<Rightarrow> error + 'b) \<Rightarrow> 'a list \<Rightarrow> error + 'b list" where
  "map_err f [] = Inr []"
| "map_err f (x # xs) =
     (case f x of
        Inl e \<Rightarrow> Inl e
      | Inr y \<Rightarrow> (case map_err f xs of Inl e \<Rightarrow> Inl e | Inr ys \<Rightarrow> Inr (y # ys)))"

definition astype_float :: "cell list \<Rightarrow> error + cell list" where
  "astype_float xs = map_err astype_float1 xs"

text \<open>
  The body of the loop of \<^verbatim>\<open>fix_data_types\<close> for one column name. The two
  assignments are separate statements inside one \<^verbatim>\<open>try\<close>: when \<^verbatim>\<open>astype(float)\<close>
  raises, the handler only prints, and the column keeps the texts the first assignment
  stored.
\<close>

definition fix_numeric_column :: "(real \<Rightarrow> string) \<Rightarrow> frame \<Rightarrow> string \<Rightarrow> frame" where
  "fix_numeric_column float_repr df col =
     (case get_col df col of
        None \<Rightarrow> df
      | Some xs \<Rightarrow>
          (let ys = map (convert_currency_format float_repr) xs;
               df1 = set_col df col ys
           in case astype_float ys of
                Inl e \<Rightarrow> df1
              | Inr zs \<Rightarrow> set_col df1 col zs))"

definition numeric_columns :: "string list" where
  "numeric_columns = [''valor_avaliacao'', ''area_terreno'', ''area_construida'',
                      ''valores_financiados_sfh'', ''fracao_ideal'']"

subsection \<open>Column names\<close>

definition rename_col :: "string \<Rightarrow> string \<Rightarrow> frame \<Rightarrow> frame" where
  "rename_col old new df = df\<lparr>cols := map (\<lambda>(k, v). (if k = old then new else k, v)) (cols df)\<rparr>"

text \<open>\<^verbatim>\<open>df.drop(names, axis=1)\<close> raises \<^verbatim>\<open>KeyError\<close> when a name is not a column.\<close>

definition drop_cols :: "string list \<Rightarrow> frame \<Rightarrow> error + frame" where
  "drop_cols names df =
     (if set names \<subseteq> set (columns df)
      then Inr (df\<lparr>cols := filter (\<lambda>(k, v). k \<notin> set names) (cols df)\<rparr>)
      else Inl KeyError)"

definition clean_column_names :: "frame \<Rightarrow> error + frame" where
  "clean_column_names df =
     (let df1 = rename_col ''sfh'' ''valores_financiados_sfh'' df;
          columns_to_drop = (if ''cidade'' \<in> set (columns df1) then [''cidade'', ''uf''] else [])
      in if columns_to_drop \<noteq> [] then drop_cols columns_to_drop df1 else Inr df1)"

subsection \<open>Text repair\<close>

text \<open>
  Strict UTF-8 decoding of a list of bytes into code points; \<open>None\<close> when the bytes
  are not valid UTF-8 (a stray continuation byte, a truncated or overlong sequence, a
  surrogate, a value above U+10FFFF).
\<close>

definition cont :: "nat \<Rightarrow> bool" where
  "cont b = (128 \<le> b \<and> b \<le> 191)"

fun utf8_decode :: "nat list \<Rightarrow> nat list option" where
  "utf8_decode [] = Some []"
| "utf8_decode (b # bs) =
     (if b < 128 then map_option ((#) b) (utf8_decode bs)
      else if 194 \<le> b \<and> b \<le> 223 then
        (case bs of
           c1 # r \<Rightarrow>
             if cont c1 then map_option ((#) ((b - 192) * 64 + (c1 - 128))) (utf8_decode r)
             else None
         | _ \<Rightarrow> None)
      else if 224 \<le> b \<and> b \<le> 239 then
        (case bs of
           c1 # c2 # r \<Rightarrow>
             if cont c1 \<and> cont c2 \<and> (b = 224 \<longrightarrow> 160 \<le> c1) \<and> (b = 237 \<longrightarrow> c1 \<le> 159)
             then map_option ((#) ((b - 224) * 4096 + (c1 - 128) * 64 + (c2 - 128)))
                    (utf8_decode r)
             else None
         | _ \<Rightarrow> None)
      else if 240 \<le> b \<and> b \<le> 244 then
        (case bs of
           c1 # c2 # c3 # r \<Rightarrow>
             if cont c1 \<and> cont c2 \<and> cont c3 \<and> (b = 240 \<longrightarrow> 144 \<le> c1) \<and> (b = 244 \<longrightarrow> c1 \<le> 143)
             then map_option
                    ((#) ((b - 240) * 262144 + (c1 - 128) * 4096 + (c2 - 128) * 64 + (c3 - 128)))
                    (utf8_decode r)
             else None
         | _ \<Rightarrow> None)
      else None)"

text \<open>
  \<^verbatim>\<open>fix_encoding\<close>: \<^verbatim>\<open>text.encode('latin1').decode('utf-8')\<close>, and the text itself
  when that raises; a value that is not a string is returned as it is. A character of
  the model is a code point below 256, so \<^verbatim>\<open>encode('latin1')\<close> gives one byte per
  character and cannot raise here. A decoded text with a code point of 256 or more has no
  representation in the string type of the model; the model keeps the text in that case.
\<close>

fun fix_encoding :: "cell \<Rightarrow> cell" where
  "fix_encoding (CStr s) =
     (case utf8_decode (map of_char s) of
        None \<Rightarrow> CStr s
      | Some cps \<Rightarrow> if list_all (\<lambda>cp. cp < 256) cps then CStr (map char_of cps) else CStr s)"
| "fix_encoding x = x"

definition exclude_columns :: "string list" where
  "exclude_columns = [''valores_financiados_sfh'', ''valor_avaliacao'',
                      ''area_terreno'', ''area_construida'', ''fracao_ideal'']"

text \<open>
  \<^verbatim>\<open>fix_text_encoding\<close> applies \<^verbatim>\<open>fix_encoding\<close> to every cell of the columns of
  dtype object that are not excluded. As \<^verbatim>\<open>fix_encoding\<close> returns anything but a string
  unchanged, mapping it over the columns of the other dtypes as well gives the same cells.
\<close>

definition fix_text_encoding :: "frame \<Rightarrow> frame" where
  "fix_text_encoding df =
     df\<lparr>cols := map (\<lambda>(k, v). (k, if k \<in> set exclude_columns then v else map fix_encoding v))
                    (cols df)\<rparr>"

subsection \<open>Dates\<close>

definition leap_year :: "int \<Rightarrow> bool" where
  "leap_year y = (y mod 4 = 0 \<and> (y mod 100 \<noteq> 0 \<or> y mod 400 = 0))"

definition days_in_month :: "int \<Rightarrow> nat \<Rightarrow> nat" where
  "days_in_month y m =
     (if m = 2 then (if leap_year y then 29 else 28)
      else if m \<in> {4, 6, 9, 11} then 30 else 31)"

text \<open>
  A text of the layout \<^verbatim>\<open>YYYY-MM-DD\<close> that names a day of the calendar. This is the
  layout of the municipal files. What else the date parsers accept is not modelled and
  reads as unparseable: for pandas the other layouts it infers, for SQLite the forms with
  a time of day, \<^verbatim>\<open>now\<close>, Julian day numbers, and the days 29 to 31 of a shorter month
  (which it rolls over into the next month). The bounds of the nanosecond timestamps of
  pandas (the years 1677 to 2262) are not modelled either.
\<close>

definition parse_iso_date :: "string \<Rightarrow> (int \<times> nat \<times> nat) option" where
  "parse_iso_date s =
     (if length s = 10 \<and> s ! 4 = CHR ''-'' \<and> s ! 7 = CHR ''-''
         \<and> list_all is_digit (take 4 s) \<and> list_all is_digit (take 2 (drop 5 s))
         \<and> list_all is_digit (drop 8 s)
      then
        (let y = int (digits_val (map digit_val (take 4 s)));
             m = digits_val (map digit_val (take 2 (drop 5 s)));
             d = digits_val (map digit_val (drop 8 s))
         in if 1 \<le> y \<and> 1 \<le> m \<and> m \<le> 12 \<and> 1 \<le> d \<and> d \<le> days_in_month y m
            then Some (y, m, d) else None)
      else None)"

text \<open>
  One element of \<^verbatim>\<open>pd.to_datetime\<close>: a null becomes the null timestamp, a text is
  parsed. Numbers, which pandas reads as a count of nanoseconds, are outside the model
  and count as unparseable, like the texts in another layout.
\<close>

fun to_datetime1 :: "cell \<Rightarrow> error + cell" where
  "to_datetime1 CNaN = Inr CNaN"
| "to_datetime1 (CStr s) =
     (case parse_iso_date s of Some (y, m, d) \<Rightarrow> Inr (CDate y m d) | None \<Rightarrow> Inl ValueError)"
| "to_datetime1 (CDate y m d) = Inr (CDate y m d)"
| "to_datetime1 x = Inl TypeError"

text \<open>
  \<^verbatim>\<open>fix_data_types\<close>: the five numeric columns in the order of the source, then
  \<^verbatim>\<open>data_transacao\<close>; an error in a \<^verbatim>\<open>try\<close> block leaves the frame as it was at
  that moment.
\<close>

definition fix_date_column :: "frame \<Rightarrow> frame" where
  "fix_date_column df =
     (case get_col df ''data_transacao'' of
        None \<Rightarrow> df
      | Some xs \<Rightarrow>
          (case map_err to_datetime1 xs of
             Inl e \<Rightarrow> df
           | Inr ys \<Rightarrow> set_col df ''data_transacao'' ys))"

definition fix_data_types :: "(real \<Rightarrow> string) \<Rightarrow> frame \<Rightarrow> frame" where
  "fix_data_types float_repr df =
     fix_date_column (foldl (fix_numeric_column float_repr) df numeric_columns)"

subsection \<open>Value bucket\<close>

text \<open>
  The five labels of \<^verbatim>\<open>faixa_valor\<close>. The source writes them with accented letters;
  each accented letter is one character here, given by its code point:
  \<^verbatim>\<open>'Nao informado'\<close> with a tilde on the a (U+00E3),
  \<^verbatim>\<open>'Baixo (ate R$ 200k)'\<close> and \<^verbatim>\<open>'Medio (R$ 200k-500k)'\<close> with an acute e (U+00E9),
  \<^verbatim>\<open>'Alto (R$ 500k-1M)'\<close> and \<^verbatim>\<open>'Premium (acima R$ 1M)'\<close>.
\<close>

definition nao_informado :: string where
  "nao_informado = ''N'' @ [CHR 0xE3] @ ''o informado''"

definition baixo :: string where
  "baixo = ''Baixo (at'' @ [CHR 0xE9] @ '' R$ 200k)''"

definition medio :: string where
  "medio = ''M'' @ [CHR 0xE9] @ ''dio (R$ 200k-500k)''"

definition alto :: string where
  "alto = ''Alto (R$ 500k-1M)''"

definition premium :: string where
  "premium = ''Premium (acima R$ 1M)''"

text \<open>
  \<^verbatim>\<open>classificar_valor\<close>, the local function of \<^verbatim>\<open>create_derived_metrics\<close>: the null
  test first, then the chain of \<^verbatim>\<open>if/elif\<close> comparisons in the order of the source.
  A comparison that raises ends the call with that error.
\<close>

definition classificar_valor :: "cell \<Rightarrow> error + cell" where
  "classificar_valor valor =
     (if pd_isna valor then Inr (CStr nao_informado)
      else case py_le valor 200000 of
        Inl e \<Rightarrow> Inl e
      | Inr True \<Rightarrow> Inr (CStr baixo)
      | Inr False \<Rightarrow>
         (case py_le valor 500000 of
            Inl e \<Rightarrow> Inl e
          | Inr True \<Rightarrow> Inr (CStr medio)
          | Inr False \<Rightarrow>
             (case py_le valor 1000000 of
                Inl e \<Rightarrow> Inl e
              | Inr True \<Rightarrow> Inr (CStr alto)
              | Inr False \<Rightarrow> Inr (CStr premium))))"

subsection \<open>Derived metrics\<close>

text \<open>
  Arithmetic on numeric columns follows numpy: a bool counts as 0 or 1, a null operand
  gives a null, division by zero gives an infinity (or a null for 0/0) instead of
  raising. A string or a timestamp operand raises \<^verbatim>\<open>TypeError\<close>. Signed zeros are
  not distinguished.
\<close>

datatype num = NNaN | NInf bool | NFin real

fun to_num :: "cell \<Rightarrow> error + num" where
  "to_num CNaN = Inr NNaN"
| "to_num (CStr s) = Inl TypeError"
| "to_num (CFloat r) = Inr (NFin r)"
| "to_num (CInf pos) = Inr (NInf pos)"
| "to_num (CInt i) = Inr (NFin (real_of_int i))"
| "to_num (CBool b) = Inr (NFin (if b then 1 else 0))"
| "to_num (CDate y m d) = Inl TypeError"

fun of_num :: "num \<Rightarrow> cell" where
  "of_num NNaN = CNaN"
| "of_num (NInf pos) = CInf pos"
| "of_num (NFin r) = CFloat r"

fun num_div :: "num \<Rightarrow> num \<Rightarrow> num" where
  "num_div NNaN y = NNaN"
| "num_div x NNaN = NNaN"
| "num_div (NInf a) (NInf b) = NNaN"
| "num_div (NInf a) (NFin y) = NInf (if y < 0 then \<not> a else a)"
| "num_div (NFin x) (NInf b) = NFin 0"
| "num_div (NFin x) (NFin y) =
     (if y = 0 then (if x = 0 then NNaN else NInf (0 < x)) else NFin (x / y))"

fun num_sub :: "num \<Rightarrow> num \<Rightarrow> num" where
  "num_sub NNaN y = NNaN"
| "num_sub x NNaN = NNaN"
| "num_sub (NInf a) (NInf b) = (if a = b then NNaN else NInf a)"
| "num_sub (NInf a) (NFin y) = NInf a"
| "num_sub (NFin x) (NInf b) = NInf (\<not> b)"
| "num_sub (NFin x) (NFin y) = NFin (x - y)"

definition py_truediv :: "cell \<Rightarrow> cell \<Rightarrow> error + cell" where
  "py_truediv x y =
     (case to_num x of
        Inl e \<Rightarrow> Inl e
      | Inr a \<Rightarrow> (case to_num y of Inl e \<Rightarrow> Inl e | Inr b \<Rightarrow> Inr (of_num (num_div a b))))"

fun as_integer :: "cell \<Rightarrow> int option" where
  "as_integer (CInt i) = Some i"
| "as_integer (CBool b) = Some (if b then 1 else 0)"
| "as_integer x = None"

text \<open>The difference of two integers is an integer, any other difference a float.\<close>

definition py_sub :: "cell \<Rightarrow> cell \<Rightarrow> error + cell" where
  "py_sub x y =
     (case (as_integer x, as_integer y) of
        (Some i, Some j) \<Rightarrow> Inr (CInt (i - j))
      | _ \<Rightarrow>
        (case to_num x of
           Inl e \<Rightarrow> Inl e
         | Inr a \<Rightarrow> (case to_num y of Inl e \<Rightarrow> Inl e | Inr b \<Rightarrow> Inr (of_num (num_sub a b)))))"

definition map2_err :: "('a \<Rightarrow> 'b \<Rightarrow> error + 'c) \<Rightarrow> 'a list \<Rightarrow> 'b list \<Rightarrow> error + 'c list" where
  "map2_err f xs ys = map_err (\<lambda>(x, y). f x y) (zip xs ys)"

text \<open>Rounding to the nearest integer, a tie going to the even neighbour.\<close>

definition rint :: "real \<Rightarrow> int" where
  "rint x =
     (let f = \<lfloor>x\<rfloor>; d = x - of_int f
      in if d < 1 / 2 then f else if 1 / 2 < d then f + 1 else if even f then f else f + 1)"

text \<open>One element of \<^verbatim>\<open>Series.round(2)\<close> on a float column.\<close>

fun np_round2 :: "cell \<Rightarrow> cell" where
  "np_round2 (CFloat r) = CFloat (of_int (rint (r * 100)) / 100)"
| "np_round2 x = x"

text \<open>
  The accessor \<^verbatim>\<open>.dt\<close> exists on a column of timestamps only, otherwise it raises
  \<^verbatim>\<open>AttributeError\<close>; a null in such a column is the null timestamp. A field of a
  column without nulls is a column of integers; with a null among them the column is one
  of floats.
\<close>

fun is_datetime :: "cell \<Rightarrow> bool" where
  "is_datetime CNaN = True"
| "is_datetime (CDate y m d) = True"
| "is_datetime x = False"

fun dt_field1 :: "(int \<Rightarrow> nat \<Rightarrow> nat \<Rightarrow> int) \<Rightarrow> bool \<Rightarrow> cell \<Rightarrow> cell" where
  "dt_field1 f as_float (CDate y m d) =
     (if as_float then CFloat (real_of_int (f y m d)) else CInt (f y m d))"
| "dt_field1 f as_float x = CNaN"

definition dt_field :: "(int \<Rightarrow> nat \<Rightarrow> nat \<Rightarrow> int) \<Rightarrow> cell list \<Rightarrow> error + cell list" where
  "dt_field f xs =
     (if list_all is_datetime xs then Inr (map (dt_field1 f (CNaN \<in> set xs)) xs)
      else Inl AttributeError)"

definition dt_year :: "cell list \<Rightarrow> error + cell list" where
  "dt_year = dt_field (\<lambda>y m d. y)"

definition dt_month :: "cell list \<Rightarrow> error + cell list" where
  "dt_month = dt_field (\<lambda>y m d. int m)"

definition dt_quarter :: "cell list \<Rightarrow> error + cell list" where
  "dt_quarter = dt_field (\<lambda>y m d. int ((m - 1) div 3 + 1))"

text \<open>\<^verbatim>\<open>df[c]\<close> raises \<^verbatim>\<open>KeyError\<close> when the frame has no column \<open>c\<close>.\<close>

definition col_or_raise :: "frame \<Rightarrow> string \<Rightarrow> error + cell list" where
  "col_or_raise df c = (case get_col df c of None \<Rightarrow> Inl KeyError | Some xs \<Rightarrow> Inr xs)"

text \<open>
  The five \<^verbatim>\<open>try\<close> blocks of \<^verbatim>\<open>create_derived_metrics\<close>, one function each. A
  block that raises assigns nothing: its handler only prints.
\<close>

definition add_valor_por_m2 :: "frame \<Rightarrow> frame" where
  "add_valor_por_m2 df =
     (case col_or_raise df ''valor_avaliacao'' of
        Inl e \<Rightarrow> df
      | Inr v \<Rightarrow>
         (case col_or_raise df ''area_construida'' of
            Inl e \<Rightarrow> df
          | Inr a \<Rightarrow>
             (case map2_err py_truediv v a of
                Inl e \<Rightarrow> df
              | Inr q \<Rightarrow> set_col df ''valor_por_m2'' (map np_round2 q))))"

definition add_idade_imovel :: "frame \<Rightarrow> frame" where
  "add_idade_imovel df =
     (case col_or_raise df ''data_transacao'' of
        Inl e \<Rightarrow> df
      | Inr t \<Rightarrow>
         (case dt_year t of
            Inl e \<Rightarrow> df
          | Inr ys \<Rightarrow>
             (case col_or_raise df ''ano_construcao'' of
                Inl e \<Rightarrow> df
              | Inr c \<Rightarrow>
                 (case map2_err py_sub ys c of
                    Inl e \<Rightarrow> df
                  | Inr r \<Rightarrow> set_col df ''idade_imovel'' r))))"

definition add_faixa_valor :: "frame \<Rightarrow> frame" where
  "add_faixa_valor df =
     (case col_or_raise df ''valor_avaliacao'' of
        Inl e \<Rightarrow> df
      | Inr v \<Rightarrow>
         (case map_err classificar_valor v of
            Inl e \<Rightarrow> df
          | Inr r \<Rightarrow> set_col df ''faixa_valor'' r))"

definition add_tem_financiamento :: "frame \<Rightarrow> frame" where
  "add_tem_financiamento df =
     (case get_col df ''valores_financiados_sfh'' of
        None \<Rightarrow> df
      | Some v \<Rightarrow>
         (case map_err (\<lambda>x. py_gt x 0) v of
            Inl e \<Rightarrow> df
          | Inr r \<Rightarrow> set_col df ''tem_financiamento'' (map CBool r)))"

definition add_temporal :: "frame \<Rightarrow> frame" where
  "add_temporal df =
     (case get_col df ''data_transacao'' of
        None \<Rightarrow> df
      | Some t \<Rightarrow>
         (case dt_month t of
            Inl e \<Rightarrow> df
          | Inr ms \<Rightarrow>
             (let df1 = set_col df ''mes_transacao'' ms
              in case dt_quarter t of
                   Inl e \<Rightarrow> df1
                 | Inr qs \<Rightarrow>
                    (let df2 = set_col df1 ''trimestre'' qs
                     in case dt_year t of
                          Inl e \<Rightarrow> df2
                        | Inr ys \<Rightarrow> set_col df2 ''ano_transacao'' ys))))"

definition create_derived_metrics :: "frame \<Rightarrow> frame" where
  "create_derived_metrics df =
     add_temporal (add_tem_financiamento (add_faixa_valor (add_idade_imovel (add_valor_por_m2 df))))"

text \<open>\<^verbatim>\<open>transform_dataset\<close>: the five steps in the order of the source. Only the
  first can raise.\<close>

definition transform_dataset :: "(real \<Rightarrow> string) \<Rightarrow> frame \<Rightarrow> error + frame" where
  "transform_dataset float_repr df =
     (case clean_column_names df of
        Inl e \<Rightarrow> Inl e
      | Inr df1 \<Rightarrow>
          Inr (create_derived_metrics
                 (fix_data_types float_repr (fix_text_encoding (handle_missing_values df1)))))"

section \<open>The database (elt/load_raw.py, elt/transform_db.py)\<close>

text \<open>
  The tables \<^verbatim>\<open>itbi_raw\<close> and \<^verbatim>\<open>itbi_transformed\<close> as lists of rows in insertion
  order. A column of a row is \<open>None\<close> for NULL. The surrogate key \<^verbatim>\<open>id\<close> and the
  columns filled by \<^verbatim>\<open>CURRENT_TIMESTAMP\<close> are not part of the model.
\<close>

record raw_row =
  raw_valor_avaliacao :: "string option"
  raw_bairro :: "string option"
  raw_tipo_imovel :: "string option"
  raw_data_transacao :: "string option"
  raw_logradouro :: "string option"
  raw_numero :: "string option"
  raw_complemento :: "string option"
  raw_cep :: "string option"
  raw_area_terreno :: "string option"
  raw_area_construida :: "string option"
  raw_ano_construcao :: "string option"
  raw_fracao_ideal :: "string option"
  raw_valores_financiados_sfh :: "string option"
  raw_source_year :: "string option"
  raw_extraction_timestamp :: "string option"
  raw_pipeline_type :: "string option"

record trow =
  t_valor_avaliacao :: "real option"
  t_valor_por_m2 :: "real option"
  t_bairro :: "string option"
  t_tipo_imovel :: "string option"
  t_data_transacao :: "string option"
  t_ano_transacao :: "int option"
  t_mes_transacao :: "int option"
  t_trimestre :: "int option"
  t_logradouro :: "string option"
  t_numero :: "string option"
  t_complemento :: "string option"
  t_cep :: "string option"
  t_area_terreno :: "real option"
  t_area_construida :: "real option"
  t_ano_construcao :: "int option"
  t_idade_imovel :: "int option"
  t_fracao_ideal :: "real option"
  t_valores_financiados_sfh :: "real option"
  t_tem_financiamento :: "int option"
  t_faixa_valor :: "string option"
  t_categoria_area :: "string option"
  t_periodo_construcao :: "string option"
  t_source_year :: "string option"
  t_pipeline_type :: "string option"

record db =
  itbi_raw :: "raw_row list"
  itbi_transformed :: "trow list"
  load_metadata :: "(string \<times> nat \<times> string) list"
  transformation_log :: "(string \<times> string \<times> nat \<times> string) list"

subsection \<open>Raw loading\<close>

definition metadata_columns :: "string list" where
  "metadata_columns = [''source_year'', ''extraction_timestamp'', ''pipeline_type'']"

text \<open>The columns of \<^verbatim>\<open>itbi_raw\<close> as \<^verbatim>\<open>create_database_schema\<close> declares them.\<close>

definition raw_table_columns :: "string list" where
  "raw_table_columns =
     [''id'', ''valor_avaliacao'', ''bairro'', ''tipo_imovel'', ''data_transacao'',
      ''logradouro'', ''numero'', ''complemento'', ''cep'', ''area_terreno'',
      ''area_construida'', ''ano_construcao'', ''fracao_ideal'', ''valores_financiados_sfh'',
      ''source_year'', ''extraction_timestamp'', ''pipeline_type'', ''load_timestamp'']"

text \<open>
  Two facts about the installation decide what the loader does, and the repository fixes
  neither, so they are parameters of the model.
  \<^item> \<open>str_keeps_na\<close>: what \<^verbatim>\<open>astype(str)\<close> does with a missing value. Before
    pandas 3 it prints it, giving the text \<^verbatim>\<open>nan\<close>; from pandas 3 on the result is a
    string column in which the missing value stays missing.
  \<^item> \<open>variable_limit\<close>: the largest number of bound variables SQLite accepts in one
    statement (999 in old builds, 32766 in recent ones).
\<close>

record runtime =
  str_keeps_na :: bool
  variable_limit :: nat

text \<open>One element of \<^verbatim>\<open>Series.astype(str)\<close>.\<close>

definition astype_str1 :: "runtime \<Rightarrow> (real \<Rightarrow> string) \<Rightarrow> cell \<Rightarrow> cell" where
  "astype_str1 rt float_repr x =
     (if pd_isna x \<and> str_keeps_na rt then x else CStr (py_str float_repr x))"

text \<open>
  The loop over \<^verbatim>\<open>df_to_load.columns\<close>: every column but the three metadata columns
  goes through \<^verbatim>\<open>astype(str)\<close>.
\<close>

definition astype_str_columns :: "runtime \<Rightarrow> (real \<Rightarrow> string) \<Rightarrow> frame \<Rightarrow> frame" where
  "astype_str_columns rt float_repr df =
     df\<lparr>cols := map (\<lambda>(k, v). (k, if k \<in> set metadata_columns then v
                                      else map (astype_str1 rt float_repr) v))
                    (cols df)\<rparr>"

text \<open>
  The value \<^verbatim>\<open>to_sql\<close> binds for a cell going into a TEXT column: NULL for the
  missing-value marker, the text of a string, and for the rest the text the engine
  stores for it.
\<close>

fun sql_text :: "(real \<Rightarrow> string) \<Rightarrow> cell \<Rightarrow> string option" where
  "sql_text float_repr CNaN = None"
| "sql_text float_repr (CStr s) = Some s"
| "sql_text float_repr (CBool b) = Some (if b then ''1'' else ''0'')"
| "sql_text float_repr x = Some (py_str float_repr x)"

definition cell_at :: "(real \<Rightarrow> string) \<Rightarrow> frame \<Rightarrow> nat \<Rightarrow> string \<Rightarrow> string option" where
  "cell_at float_repr df i c =
     (case get_col df c of
        None \<Rightarrow> None
      | Some xs \<Rightarrow> if i < length xs then sql_text float_repr (xs ! i) else None)"

text \<open>Row \<open>i\<close> of a frame as a row of \<^verbatim>\<open>itbi_raw\<close>; a column the frame lacks is NULL.\<close>

definition frame_row :: "(real \<Rightarrow> string) \<Rightarrow> frame \<Rightarrow> nat \<Rightarrow> raw_row" where
  "frame_row float_repr df i =
     \<lparr>raw_valor_avaliacao = cell_at float_repr df i ''valor_avaliacao'',
      raw_bairro = cell_at float_repr df i ''bairro'',
      raw_tipo_imovel = cell_at float_repr df i ''tipo_imovel'',
      raw_data_transacao = cell_at float_repr df i ''data_transacao'',
      raw_logradouro = cell_at float_repr df i ''logradouro'',
      raw_numero = cell_at float_repr df i ''numero'',
      raw_complemento = cell_at float_repr df i ''complemento'',
      raw_cep = cell_at float_repr df i ''cep'',
      raw_area_terreno = cell_at float_repr df i ''area_terreno'',
      raw_area_construida = cell_at float_repr df i ''area_construida'',
      raw_ano_construcao = cell_at float_repr df i ''ano_construcao'',
      raw_fracao_ideal = cell_at float_repr df i ''fracao_ideal'',
      raw_valores_financiados_sfh = cell_at float_repr df i ''valores_financiados_sfh'',
      raw_source_year = cell_at float_repr df i ''source_year'',
      raw_extraction_timestamp = cell_at float_repr df i ''extraction_timestamp'',
      raw_pipeline_type = cell_at float_repr df i ''pipeline_type''\<rparr>"

definition frame_rows :: "(real \<Rightarrow> string) \<Rightarrow> frame \<Rightarrow> raw_row list" where
  "frame_rows float_repr df = map (frame_row float_repr df) [0..<nrows df]"

text \<open>
  \<^verbatim>\<open>CONSTRAINT unique_record UNIQUE (valor_avaliacao, bairro, data_transacao,
  source_year)\<close>: two rows collide when the four columns are equal and none is NULL.
\<close>

definition unique_key :: "raw_row \<Rightarrow> (string \<times> string \<times> string \<times> string) option" where
  "unique_key r =
     (case (raw_valor_avaliacao r, raw_bairro r, raw_data_transacao r, raw_source_year r) of
        (Some v, Some b, Some d, Some y) \<Rightarrow> Some (v, b, d, y)
      | _ \<Rightarrow> None)"

definition collide :: "raw_row \<Rightarrow> raw_row \<Rightarrow> bool" where
  "collide r1 r2 = (unique_key r1 \<noteq> None \<and> unique_key r1 = unique_key r2)"

fun insert_rows :: "raw_row list \<Rightarrow> raw_row list \<Rightarrow> raw_row list option" where
  "insert_rows tbl [] = Some tbl"
| "insert_rows tbl (r # rs) =
     (if list_ex (\<lambda>t. collide t r) tbl then None else insert_rows (tbl @ [r]) rs)"

text \<open>
  \<^verbatim>\<open>load_raw_dataset\<close>. The rows of the year are deleted, the frame is converted and
  appended. \<^verbatim>\<open>to_sql(..., method='multi')\<close> without a chunk size sends the whole frame
  as one \<^verbatim>\<open>INSERT\<close> with one bound variable per cell. The \<^verbatim>\<open>DELETE\<close> and the
  \<^verbatim>\<open>INSERT\<close> are one transaction: when the insert fails (a column the table does not
  have, more variables than the engine accepts, a collision on the unique key),
  \<^verbatim>\<open>to_sql\<close> rolls it back, so the table is as before; the handler records the error
  in \<^verbatim>\<open>load_metadata\<close> and raises again. The result is the new database and either
  the error or the number of rows loaded.
\<close>

definition load_raw_dataset ::
  "runtime \<Rightarrow> (real \<Rightarrow> string) \<Rightarrow> frame \<Rightarrow> string \<Rightarrow> db \<Rightarrow> db \<times> (error + nat)" where
  "load_raw_dataset rt float_repr df year d =
     (let existing_records = length (filter (\<lambda>r. raw_source_year r = Some year) (itbi_raw d));
          kept = (if existing_records > 0
                  then filter (\<lambda>r. raw_source_year r \<noteq> Some year) (itbi_raw d)
                  else itbi_raw d);
          df_to_load = astype_str_columns rt float_repr df
      in if \<not> set (columns df_to_load) \<subseteq> set raw_table_columns then
           (d\<lparr>load_metadata := load_metadata d @ [(year, 0, ''error'')]\<rparr>, Inl OperationalError)
         else if variable_limit rt < nrows df_to_load * length (columns df_to_load) then
           (d\<lparr>load_metadata := load_metadata d @ [(year, 0, ''error'')]\<rparr>, Inl OperationalError)
         else
           (case insert_rows kept (frame_rows float_repr df_to_load) of
              None \<Rightarrow>
                (d\<lparr>load_metadata := load_metadata d @ [(year, 0, ''error'')]\<rparr>, Inl IntegrityError)
            | Some tbl \<Rightarrow>
                (d\<lparr>itbi_raw := tbl,
                   load_metadata := load_metadata d @ [(year, nrows df_to_load, ''success'')]\<rparr>,
                 Inr (nrows df_to_load))))"

section \<open>In-database transform (elt/transform_db.py)\<close>

subsection \<open>Numeric coercion in SQL\<close>

text \<open>
  A TEXT column holds a text or NULL (\<open>None\<close>). \<^verbatim>\<open>REPLACE\<close> of NULL is NULL, and so
  is \<^verbatim>\<open>CAST(NULL AS REAL)\<close>.

  \<^verbatim>\<open>CAST(text AS REAL)\<close> never fails: SQLite reads the longest prefix of the text that
  is a number (leading blanks, a sign, digits, a point and digits, an exponent when it
  has digits) and ignores the rest; a text with no such prefix gives 0.0.
\<close>

definition sqlite_isspace :: "char \<Rightarrow> bool" where
  "sqlite_isspace c = ((of_char c :: nat) \<in> {9, 10, 11, 12, 13, 32})"

definition sqlite_exponent :: "string \<Rightarrow> int" where
  "sqlite_exponent s =
     (case s of
        [] \<Rightarrow> 0
      | c # cs \<Rightarrow>
          if c = CHR ''e'' \<or> c = CHR ''E'' then
            (case take_sign cs of
               (neg, r) \<Rightarrow>
                 (let ds = map digit_val (takeWhile is_digit r)
                  in if ds = [] then 0
                     else if neg then - int (digits_val ds) else int (digits_val ds)))
          else 0)"

definition sqlite_atof :: "string \<Rightarrow> real" where
  "sqlite_atof s =
     (case take_sign (dropWhile sqlite_isspace s) of
        (neg, body) \<Rightarrow>
          (let ip = map digit_val (takeWhile is_digit body);
               r = dropWhile is_digit body;
               has_point = (r \<noteq> [] \<and> hd r = CHR ''.'');
               fp = (if has_point then map digit_val (takeWhile is_digit (tl r)) else []);
               r' = (if has_point then dropWhile is_digit (tl r) else r)
           in scale10 ((if neg then - 1 else 1) * decimal_value ip fp) (sqlite_exponent r')))"

definition sql_replace :: "string option \<Rightarrow> char \<Rightarrow> string \<Rightarrow> string option" where
  "sql_replace v old new = map_option (replace_char old new) v"

definition sql_cast_real :: "string option \<Rightarrow> real option" where
  "sql_cast_real v = map_option sqlite_atof v"

text \<open>\<^verbatim>\<open>CAST(REPLACE(REPLACE(v, '.', ''), ',', '.') AS REAL)\<close>, the expression applied to
  every numeric column by \<^verbatim>\<open>transform_data_types_in_db\<close>.\<close>

definition sql_coerce_real :: "string option \<Rightarrow> real option" where
  "sql_coerce_real v = sql_cast_real (sql_replace (sql_replace v CHR ''.'' []) CHR '','' ''.'')"

subsection \<open>SQL comparison and the value bucket\<close>

text \<open>
  A column of type REAL holds a number or NULL (\<open>None\<close>). A comparison with NULL is
  NULL, and a \<^verbatim>\<open>CASE WHEN\<close> branch is taken only when its condition is true.
\<close>

definition sql_le :: "real option \<Rightarrow> real \<Rightarrow> bool option" where
  "sql_le v k = map_option (\<lambda>r. r \<le> k) v"

definition sql_gt :: "real option \<Rightarrow> real \<Rightarrow> bool option" where
  "sql_gt v k = map_option (\<lambda>r. r > k) v"

definition sql_true :: "bool option \<Rightarrow> bool" where
  "sql_true c = (c = Some True)"

text \<open>The \<^verbatim>\<open>CASE\<close> expression of \<^verbatim>\<open>update_faixa_valor\<close>.\<close>

definition sql_faixa_valor :: "real option \<Rightarrow> string" where
  "sql_faixa_valor valor_avaliacao =
     (if sql_true (sql_le valor_avaliacao 200000) then baixo
      else if sql_true (sql_le valor_avaliacao 500000) then medio
      else if sql_true (sql_le valor_avaliacao 1000000) then alto
      else premium)"

subsection \<open>Row transformation in SQL\<close>

text \<open>\<^verbatim>\<open>TRIM(x)\<close> removes spaces at both ends.\<close>

definition sql_trim :: "string option \<Rightarrow> string option" where
  "sql_trim v =
     map_option (\<lambda>s. rev (dropWhile (\<lambda>c. c = CHR '' '') (rev (dropWhile (\<lambda>c. c = CHR '' '') s)))) v"

definition sql_nullif :: "string option \<Rightarrow> string \<Rightarrow> string option" where
  "sql_nullif v x = (if v = Some x then None else v)"

fun sql_coalesce :: "string option list \<Rightarrow> string option" where
  "sql_coalesce [] = None"
| "sql_coalesce (None # vs) = sql_coalesce vs"
| "sql_coalesce (Some s # vs) = Some s"

text \<open>
  \<^verbatim>\<open>CAST(text AS INTEGER)\<close> reads the longest prefix that is an integer (leading
  blanks, a sign, digits) and gives 0 when there is none.
\<close>

definition sqlite_atoi :: "string \<Rightarrow> int" where
  "sqlite_atoi s =
     (case take_sign (dropWhile sqlite_isspace s) of
        (neg, body) \<Rightarrow>
          (let n = int (digits_val (map digit_val (takeWhile is_digit body)))
           in if neg then - n else n))"

definition sql_cast_integer :: "string option \<Rightarrow> int option" where
  "sql_cast_integer v = map_option sqlite_atoi v"

text \<open>
  \<^verbatim>\<open>DATE(x)\<close> and \<^verbatim>\<open>CAST(strftime(fmt, x) AS INTEGER)\<close> for the formats
  \<^verbatim>\<open>%Y\<close> and \<^verbatim>\<open>%m\<close>: NULL when the text is not a date.
\<close>

definition sql_date :: "string option \<Rightarrow> string option" where
  "sql_date v =
     (case v of
        None \<Rightarrow> None
      | Some s \<Rightarrow> (case parse_iso_date s of None \<Rightarrow> None | Some ymd \<Rightarrow> Some s))"

definition sql_year :: "string option \<Rightarrow> int option" where
  "sql_year v =
     (case v of
        None \<Rightarrow> None
      | Some s \<Rightarrow> (case parse_iso_date s of None \<Rightarrow> None | Some (y, m, d) \<Rightarrow> Some y))"

definition sql_month :: "string option \<Rightarrow> int option" where
  "sql_month v =
     (case v of
        None \<Rightarrow> None
      | Some s \<Rightarrow> (case parse_iso_date s of None \<Rightarrow> None | Some (y, m, d) \<Rightarrow> Some (int m)))"

text \<open>\<^verbatim>\<open>x BETWEEN a AND b\<close> on an INTEGER column.\<close>

definition sql_between :: "int option \<Rightarrow> int \<Rightarrow> int \<Rightarrow> bool option" where
  "sql_between v a b = map_option (\<lambda>i. a \<le> i \<and> i \<le> b) v"

definition sql_trimestre :: "int option \<Rightarrow> int" where
  "sql_trimestre m =
     (if sql_true (sql_between m 1 3) then 1
      else if sql_true (sql_between m 4 6) then 2
      else if sql_true (sql_between m 7 9) then 3
      else 4)"

text \<open>The \<^verbatim>\<open>SELECT\<close> list of \<^verbatim>\<open>transform_sql\<close>; the columns the \<^verbatim>\<open>INSERT\<close> does not
  name are NULL.\<close>

definition transform_row :: "raw_row \<Rightarrow> trow" where
  "transform_row r =
     \<lparr>t_valor_avaliacao = sql_coerce_real (raw_valor_avaliacao r),
      t_valor_por_m2 = None,
      t_bairro = sql_trim (raw_bairro r),
      t_tipo_imovel = sql_trim (raw_tipo_imovel r),
      t_data_transacao = sql_date (raw_data_transacao r),
      t_ano_transacao = sql_year (raw_data_transacao r),
      t_mes_transacao = sql_month (raw_data_transacao r),
      t_trimestre = Some (sql_trimestre (sql_month (raw_data_transacao r))),
      t_logradouro = sql_trim (raw_logradouro r),
      t_numero = sql_trim (raw_numero r),
      t_complemento =
        sql_coalesce [sql_nullif (sql_trim (raw_complemento r)) [],
                      sql_nullif (sql_trim (raw_complemento r)) ''nan'',
                      Some ''Sem complemento''],
      t_cep = sql_trim (raw_cep r),
      t_area_terreno = sql_coerce_real (raw_area_terreno r),
      t_area_construida = sql_coerce_real (raw_area_construida r),
      t_ano_construcao = sql_cast_integer (raw_ano_construcao r),
      t_idade_imovel = None,
      t_fracao_ideal = sql_coerce_real (raw_fracao_ideal r),
      t_valores_financiados_sfh = sql_coerce_real (raw_valores_financiados_sfh r),
      t_tem_financiamento = None,
      t_faixa_valor = None,
      t_categoria_area = None,
      t_periodo_construcao = None,
      t_source_year = raw_source_year r,
      t_pipeline_type = Some ''ELT''\<rparr>"

text \<open>The \<^verbatim>\<open>WHERE\<close> clause of \<^verbatim>\<open>transform_sql\<close>.\<close>

definition transform_where :: "string \<Rightarrow> raw_row \<Rightarrow> bool" where
  "transform_where year r =
     (raw_source_year r = Some year
      \<and> raw_valor_avaliacao r \<noteq> None
      \<and> raw_valor_avaliacao r \<noteq> Some []
      \<and> raw_valor_avaliacao r \<noteq> Some ''nan'')"

text \<open>
  \<^verbatim>\<open>transform_data_types_in_db\<close>: the rows of the year leave \<^verbatim>\<open>itbi_transformed\<close>,
  then the selected raw rows are inserted, transformed. Nothing in the statement can
  fail on a row, so the model has the success path only.
\<close>

definition transform_data_types_in_db :: "string \<Rightarrow> db \<Rightarrow> db \<times> nat" where
  "transform_data_types_in_db year d =
     (let kept = filter (\<lambda>t. t_source_year t \<noteq> Some year) (itbi_transformed d);
          new = map transform_row (filter (transform_where year) (itbi_raw d));
          records_transformed = length new
      in (d\<lparr>itbi_transformed := kept @ new,
            transformation_log := transformation_log d
               @ [(''data_types'', year, records_transformed, ''success'')]\<rparr>,
          records_transformed))"

subsection \<open>Derived metrics in SQL\<close>

text \<open>Arithmetic with NULL is NULL, and so is a division by zero.\<close>

definition sql_div :: "real option \<Rightarrow> real option \<Rightarrow> real option" where
  "sql_div a b =
     (case (a, b) of
        (Some x, Some y) \<Rightarrow> if y = 0 then None else Some (x / y)
      | _ \<Rightarrow> None)"

definition sql_nullif_real :: "real option \<Rightarrow> real \<Rightarrow> real option" where
  "sql_nullif_real v x = (if v = Some x then None else v)"

text \<open>\<^verbatim>\<open>ROUND(x, 2)\<close>: to the nearest hundredth, a tie going away from zero.\<close>

definition sqlite_round2 :: "real \<Rightarrow> real" where
  "sqlite_round2 x =
     (if x < 0 then - (of_int \<lfloor>- x * 100 + 1 / 2\<rfloor> / 100) else of_int \<lfloor>x * 100 + 1 / 2\<rfloor> / 100)"

definition sql_round2 :: "real option \<Rightarrow> real option" where
  "sql_round2 v = map_option sqlite_round2 v"

definition sql_int_sub :: "int option \<Rightarrow> int option \<Rightarrow> int option" where
  "sql_int_sub a b = (case (a, b) of (Some x, Some y) \<Rightarrow> Some (x - y) | _ \<Rightarrow> None)"

definition sql_int_lt :: "int option \<Rightarrow> int \<Rightarrow> bool option" where
  "sql_int_lt v k = map_option (\<lambda>i. i < k) v"

text \<open>The labels of \<^verbatim>\<open>categoria_area\<close>; the superscript two is U+00B2.\<close>

definition area_pequeno :: string where
  "area_pequeno = ''Pequeno (at'' @ [CHR 0xE9] @ '' 50m'' @ [CHR 0xB2] @ '')''"

definition area_medio :: string where
  "area_medio = ''M'' @ [CHR 0xE9] @ ''dio (50-100m'' @ [CHR 0xB2] @ '')''"

definition area_grande :: string where
  "area_grande = ''Grande (100-200m'' @ [CHR 0xB2] @ '')''"

definition area_extra_grande :: string where
  "area_extra_grande = ''Extra Grande (acima 200m'' @ [CHR 0xB2] @ '')''"

definition sql_categoria_area :: "real option \<Rightarrow> string" where
  "sql_categoria_area area_construida =
     (if sql_true (sql_le area_construida 50) then area_pequeno
      else if sql_true (sql_le area_construida 100) then area_medio
      else if sql_true (sql_le area_construida 200) then area_grande
      else area_extra_grande)"

definition sql_periodo_construcao :: "int option \<Rightarrow> string" where
  "sql_periodo_construcao ano_construcao =
     (if sql_true (sql_int_lt ano_construcao 1980) then ''Antes de 1980''
      else if sql_true (sql_between ano_construcao 1980 1999) then ''1980-1999''
      else if sql_true (sql_between ano_construcao 2000 2009) then ''2000-2009''
      else if sql_true (sql_between ano_construcao 2010 2019) then ''2010-2019''
      else ''2020 ou posterior'')"

text \<open>The six \<^verbatim>\<open>UPDATE\<close> statements of \<^verbatim>\<open>create_derived_metrics_in_db\<close> on one row
  of the year, each with its own \<^verbatim>\<open>WHERE\<close> condition.\<close>

definition update_valor_m2 :: "trow \<Rightarrow> trow" where
  "update_valor_m2 t =
     (if sql_true (sql_gt (t_area_construida t) 0)
      then t\<lparr>t_valor_por_m2 :=
               sql_round2 (sql_div (t_valor_avaliacao t) (sql_nullif_real (t_area_construida t) 0))\<rparr>
      else t)"

definition update_idade :: "trow \<Rightarrow> trow" where
  "update_idade t =
     (if t_ano_construcao t \<noteq> None
      then t\<lparr>t_idade_imovel := sql_int_sub (t_ano_transacao t) (t_ano_construcao t)\<rparr>
      else t)"

definition update_financiamento :: "trow \<Rightarrow> trow" where
  "update_financiamento t =
     t\<lparr>t_tem_financiamento :=
         Some (if sql_true (sql_gt (t_valores_financiados_sfh t) 0) then 1 else 0)\<rparr>"

definition update_faixa_valor :: "trow \<Rightarrow> trow" where
  "update_faixa_valor t = t\<lparr>t_faixa_valor := Some (sql_faixa_valor (t_valor_avaliacao t))\<rparr>"

definition update_categoria_area :: "trow \<Rightarrow> trow" where
  "update_categoria_area t =
     (if t_area_construida t \<noteq> None
      then t\<lparr>t_categoria_area := Some (sql_categoria_area (t_area_construida t))\<rparr>
      else t)"

definition update_periodo_construcao :: "trow \<Rightarrow> trow" where
  "update_periodo_construcao t =
     (if t_ano_construcao t \<noteq> None
      then t\<lparr>t_periodo_construcao := Some (sql_periodo_construcao (t_ano_construcao t))\<rparr>
      else t)"

definition derive_row :: "trow \<Rightarrow> trow" where
  "derive_row t =
     update_periodo_construcao (update_categoria_area (update_faixa_valor
       (update_financiamento (update_idade (update_valor_m2 t)))))"

definition create_derived_metrics_in_db :: "string \<Rightarrow> db \<Rightarrow> db \<times> nat" where
  "create_derived_metrics_in_db year d =
     (let rows = map (\<lambda>t. if t_source_year t = Some year then derive_row t else t)
                   (itbi_transformed d);
          records_updated = length (filter (\<lambda>t. t_source_year t = Some year) rows)
      in (d\<lparr>itbi_transformed := rows,
            transformation_log := transformation_log d
               @ [(''derived_metrics'', year, records_updated, ''success'')]\<rparr>,
          records_updated))"

section \<open>Consolidation (etl/load.py)\<close>

text \<open>
  \<^verbatim>\<open>pd.concat(frames, ignore_index=True, sort=False)\<close>. The columns of the result are
  the columns of the frames in the order of their first appearance; the cells of a column
  are the cells of the frames one after the other, with nulls for the rows of a frame
  that lacks the column. An empty list of frames raises \<^verbatim>\<open>ValueError\<close>.

  A column that ends up holding integers together with floats or nulls, and nothing
  else, is a column of floats in pandas: its integers are converted. A column whose
  cells are all numbers or nulls is read as such a numeric column.
\<close>

definition union_columns :: "frame list \<Rightarrow> string list" where
  "union_columns fs = foldl (\<lambda>acc f. acc @ filter (\<lambda>c. c \<notin> set acc) (columns f)) [] fs"

definition piece :: "string \<Rightarrow> frame \<Rightarrow> cell list" where
  "piece c f = (case get_col f c of Some xs \<Rightarrow> xs | None \<Rightarrow> replicate (nrows f) CNaN)"

fun is_number :: "cell \<Rightarrow> bool" where
  "is_number CNaN = True"
| "is_number (CFloat r) = True"
| "is_number (CInf pos) = True"
| "is_number (CInt i) = True"
| "is_number x = False"

fun is_int :: "cell \<Rightarrow> bool" where
  "is_int (CInt i) = True"
| "is_int x = False"

fun to_float :: "cell \<Rightarrow> cell" where
  "to_float (CInt i) = CFloat (real_of_int i)"
| "to_float x = x"

definition promote :: "cell list \<Rightarrow> cell list" where
  "promote xs = (if list_all is_number xs \<and> \<not> list_all is_int xs then map to_float xs else xs)"

definition concat_frames :: "frame list \<Rightarrow> error + frame" where
  "concat_frames fs =
     (if fs = [] then Inl ValueError
      else Inr \<lparr>nrows = sum_list (map nrows fs),
                cols = map (\<lambda>c. (c, promote (concat (map (piece c) fs)))) (union_columns fs)\<rparr>)"

text \<open>
  \<^verbatim>\<open>consolidate_datasets\<close>: the dictionary of the per-year frames is a list of pairs
  in insertion order, and \<^verbatim>\<open>list(datasets.values())\<close> its frames in that order.
\<close>

definition consolidate_datasets :: "(string \<times> frame) list \<Rightarrow> error + frame" where
  "consolidate_datasets datasets = concat_frames (map snd datasets)"

text \<open>A frame is well formed when each of its columns has one cell per row.\<close>

definition wf_frame :: "frame \<Rightarrow> bool" where
  "wf_frame f = list_all (\<lambda>(k, v). length v = nrows f) (cols f)"

text \<open>The position of the first row of the \<open>k\<close>-th frame in the consolidated frame.\<close>

definition row_offset :: "frame list \<Rightarrow> nat \<Rightarrow> nat" where
  "row_offset fs k = sum_list (map nrows (take k fs))"

text \<open>A cell and its image under the conversion of integers to floats.\<close>

definition same_value :: "cell \<Rightarrow> cell \<Rightarrow> bool" where
  "same_value x y = (y = x \<or> y = to_float x)"

definition frames_2023 :: frame where
  "frames_2023 = \<lparr>nrows = 2, cols = [(''bairro'', [CStr ''Boa Viagem'', CNaN]),
                                      (''ano_construcao'', [CInt 2000, CInt 2010])]\<rparr>"

definition frames_2024 :: frame where
  "frames_2024 = \<lparr>nrows = 1, cols = [(''bairro'', [CStr ''Casa Forte'']),
                                      (''cep'', [CStr ''52061-000''])]\<rparr>"

section \<open>Extraction (etl/extract.py, elt/extract.py)\<close>

text \<open>
  The network is a parameter: \<open>read_csv url\<close> is the frame \<^verbatim>\<open>pd.read_csv\<close> returns
  for the address, or the error it raises (no connection, a file that does not parse).
  The clock is a parameter too: \<open>clock year\<close> is what \<^verbatim>\<open>datetime.now()\<close> returns in
  the iteration of that year.
\<close>

definition datasets_urls :: "(string \<times> string) list" where
  "datasets_urls =
     [(''2023'', ''http://dados.recife.pe.gov.br/dataset/28e3e25e-a9a7-4a9f-90a8-bb02d09cbc18/resource/d0c08a6f-4c27-423c-9219-8d13403816f4/download/itbi_2023.csv''),
      (''2024'', ''http://dados.recife.pe.gov.br/dataset/28e3e25e-a9a7-4a9f-90a8-bb02d09cbc18/resource/a36d548b-d705-496a-ac47-4ec36f068474/download/itbi_2024.csv''),
      (''2025'', ''http://dados.recife.pe.gov.br/dataset/28e3e25e-a9a7-4a9f-90a8-bb02d09cbc18/resource/5b582147-3935-459a-bbf7-ee623c22c97b/download/itbi_2025.csv'')]"

text \<open>\<^verbatim>\<open>df[c] = value\<close> with a scalar: the value in every row.\<close>

definition set_scalar :: "frame \<Rightarrow> string \<Rightarrow> cell \<Rightarrow> frame" where
  "set_scalar df c v = set_col df c (replicate (nrows df) v)"

text \<open>\<^verbatim>\<open>df.empty\<close>: no rows or no columns.\<close>

definition df_empty :: "frame \<Rightarrow> bool" where
  "df_empty df = (nrows df = 0 \<or> cols df = [])"

text \<open>\<^verbatim>\<open>datasets_dict[year] = df\<close> on a dictionary kept as a list of pairs in
  insertion order.\<close>

fun dict_set :: "(string \<times> frame) list \<Rightarrow> string \<Rightarrow> frame \<Rightarrow> (string \<times> frame) list" where
  "dict_set [] k v = [(k, v)]"
| "dict_set ((k', v') # r) k v = (if k' = k then (k', v) # r else (k', v') # dict_set r k v)"

text \<open>The body of the \<^verbatim>\<open>try\<close> block of \<^verbatim>\<open>extract_itbi_data\<close> up to the point where
  the frame is stored: the frame to store, or the error raised.\<close>

definition extract_one ::
  "(string \<Rightarrow> error + frame) \<Rightarrow> (string \<Rightarrow> cell) \<Rightarrow> string \<times> string \<Rightarrow> error + frame" where
  "extract_one read_csv clock yu =
     (case yu of
        (year, url) \<Rightarrow>
          (case read_csv url of
             Inl e \<Rightarrow> Inl e
           | Inr df0 \<Rightarrow>
               (let df1 = set_scalar df0 ''source_year'' (CStr year);
                    df2 = set_scalar df1 ''extraction_date'' (clock year);
                    df = set_scalar df2 ''source_url'' (CStr url)
                in if df_empty df then Inl ValueError
                   else if length (columns df) < 20 then Inl ValueError
                   else Inr df)))"

text \<open>
  The state of the loop: the dictionary, the running total, and the operation log that
  \<^verbatim>\<open>log_operation\<close> appends to (operation, dataset, records, and the error for the
  status \<^verbatim>\<open>error: ...\<close> or \<open>None\<close> for \<^verbatim>\<open>success\<close>). The handler logs the error and
  continues with the next year.
\<close>

type_synonym log_entry = "string \<times> string \<times> nat \<times> error option"

definition extract_step ::
  "(string \<Rightarrow> error + frame) \<Rightarrow> (string \<Rightarrow> cell)
     \<Rightarrow> (string \<times> frame) list \<times> nat \<times> log_entry list \<Rightarrow> string \<times> string
     \<Rightarrow> (string \<times> frame) list \<times> nat \<times> log_entry list" where
  "extract_step read_csv clock st yu =
     (case st of
        (datasets_dict, total_records, operation_log) \<Rightarrow>
          (case extract_one read_csv clock yu of
             Inr df \<Rightarrow>
               (dict_set datasets_dict (fst yu) df,
                total_records + nrows df,
                operation_log @ [(''extract'', fst yu, nrows df, None)])
           | Inl e \<Rightarrow>
               (datasets_dict, total_records,
                operation_log @ [(''extract'', fst yu, 0, Some e)])))"

definition extract_itbi_data ::
  "(string \<Rightarrow> error + frame) \<Rightarrow> (string \<Rightarrow> cell)
     \<Rightarrow> (string \<times> frame) list \<times> log_entry list" where
  "extract_itbi_data read_csv clock =
     (case foldl (extract_step read_csv clock) ([], 0, []) datasets_urls of
        (datasets_dict, total_records, operation_log) \<Rightarrow> (datasets_dict, operation_log))"

text \<open>
  The variant of the ELT pipeline: other metadata columns, no test on the number of
  columns, and no operation log; the handler prints the error. The second component of
  the result is the list of the years for which that line is printed.
\<close>

definition extract_one_elt ::
  "(string \<Rightarrow> error + frame) \<Rightarrow> (string \<Rightarrow> cell) \<Rightarrow> string \<times> string \<Rightarrow> error + frame" where
  "extract_one_elt read_csv clock yu =
     (case yu of
        (year, url) \<Rightarrow>
          (case read_csv url of
             Inl e \<Rightarrow> Inl e
           | Inr df0 \<Rightarrow>
               (let df1 = set_scalar df0 ''source_year'' (CStr year);
                    df2 = set_scalar df1 ''extraction_timestamp'' (clock year);
                    df = set_scalar df2 ''pipeline_type'' (CStr ''ELT'')
                in if df_empty df then Inl ValueError else Inr df)))"

definition extract_step_elt ::
  "(string \<Rightarrow> error + frame) \<Rightarrow> (string \<Rightarrow> cell)
     \<Rightarrow> (string \<times> frame) list \<times> nat \<times> string list \<Rightarrow> string \<times> string
     \<Rightarrow> (string \<times> frame) list \<times> nat \<times> string list" where
  "extract_step_elt read_csv clock st yu =
     (case st of
        (datasets_dict, total_records, printed_errors) \<Rightarrow>
          (case extract_one_elt read_csv clock yu of
             Inr df \<Rightarrow> (dict_set datasets_dict (fst yu) df, total_records + nrows df, printed_errors)
           | Inl e \<Rightarrow> (datasets_dict, total_records, printed_errors @ [fst yu])))"

definition extract_itbi_data_elt ::
  "(string \<Rightarrow> error + frame) \<Rightarrow> (string \<Rightarrow> cell) \<Rightarrow> (string \<times> frame) list \<times> string list" where
  "extract_itbi_data_elt read_csv clock =
     (case foldl (extract_step_elt read_csv clock) ([], 0, []) datasets_urls of
        (datasets_dict, total_records, printed_errors) \<Rightarrow> (datasets_dict, printed_errors))"

text \<open>A file of one record with seventeen columns, and one with a single column.\<close>

definition wide_frame :: frame where
  "wide_frame =
     \<lparr>nrows = 1,
      cols = [(''logradouro'', [CStr ''Rua da Aurora'']),
              (''numero'', [CInt 100]),
              (''complemento'', [CNaN]),
              (''valor_avaliacao'', [CStr ''150.000,00'']),
              (''bairro'', [CStr ''Boa Vista'']),
              (''cidade'', [CStr ''Recife'']),
              (''uf'', [CStr ''PE'']),
              (''ano_construcao'', [CInt 2010]),
              (''area_terreno'', [CStr ''80,0'']),
              (''area_construida'', [CStr ''50,0'']),
              (''fracao_ideal'', [CStr ''1,0'']),
              (''padrao_acabamento'', [CStr ''Medio'']),
              (''tipo_construcao'', [CStr ''Alvenaria'']),
              (''tipo_ocupacao'', [CStr ''Residencial'']),
              (''tipo_imovel'', [CStr ''Apartamento'']),
              (''data_transacao'', [CStr ''2024-06-15'']),
              (''valores_financiados_sfh'', [CStr ''0,00''])]\<rparr>"

definition narrow_frame :: frame where
  "narrow_frame = \<lparr>nrows = 1, cols = [(''valor_avaliacao'', [CStr ''150.000,00''])]\<rparr>"

text \<open>A network on which the file of 2023 cannot be read, the file of 2024 is the wide
  one and the file of 2025 the narrow one.\<close>

definition example_read_csv :: "string \<Rightarrow> error + frame" where
  "example_read_csv url =
     (if url = snd (datasets_urls ! 1) then Inr wide_frame
      else if url = snd (datasets_urls ! 2) then Inr narrow_frame
      else Inl OperationalError)"

section \<open>Example inputs\<close>

text \<open>A printer of floats for frames in which no float is ever printed.\<close>

definition no_float_repr :: "real \<Rightarrow> string" where
  "no_float_repr r = []"

text \<open>The example row of the specification, as a frame of one row and as a raw row of
  the year 2023.\<close>

definition example_frame :: frame where
  "example_frame =
     \<lparr>nrows = 1,
      cols = [(''valor_avaliacao'', [CStr ''150.000,00'']),
              (''area_construida'', [CStr ''50,0'']),
              (''ano_construcao'', [CInt 2010]),
              (''data_transacao'', [CStr ''2023-06-15'']),
              (''valores_financiados_sfh'', [CStr ''0,00''])]\<rparr>"

definition example_raw_row :: raw_row where
  "example_raw_row =
     \<lparr>raw_valor_avaliacao = Some ''150.000,00'', raw_bairro = None, raw_tipo_imovel = None,
      raw_data_transacao = Some ''2023-06-15'', raw_logradouro = None, raw_numero = None,
      raw_complemento = None, raw_cep = None, raw_area_terreno = None,
      raw_area_construida = Some ''50,0'', raw_ano_construcao = Some ''2010'',
      raw_fracao_ideal = None, raw_valores_financiados_sfh = Some ''0,00'',
      raw_source_year = Some ''2023'', raw_extraction_timestamp = None,
      raw_pipeline_type = Some ''ELT''\<rparr>"

text \<open>The output the specification gives for the example row, as a test on a frame.\<close>

definition example_expected :: "frame \<Rightarrow> bool" where
  "example_expected out =
     (get_col out ''valor_avaliacao'' = Some [CFloat 150000]
      \<and> get_col out ''area_construida'' = Some [CFloat 50]
      \<and> get_col out ''valor_por_m2'' = Some [CFloat 3000]
      \<and> get_col out ''idade_imovel'' = Some [CInt 13]
      \<and> get_col out ''faixa_valor'' = Some [CStr medio]
      \<and> get_col out ''tem_financiamento'' = Some [CBool False]
      \<and> get_col out ''mes_transacao'' = Some [CInt 6]
      \<and> get_col out ''trimestre'' = Some [CInt 2])"

text \<open>A raw table of the year 2023 with one row whose assessed value is not a number and
  one whose assessed value is empty.\<close>

definition example_db :: db where
  "example_db =
     \<lparr>itbi_raw = [example_raw_row\<lparr>raw_valor_avaliacao := Some ''abc''\<rparr>,
                  example_raw_row\<lparr>raw_valor_avaliacao := Some []\<rparr>],
      itbi_transformed = [],
      load_metadata = [],
      transformation_log = []\<rparr>"

definition positive_valor :: "trow \<Rightarrow> bool" where
  "positive_valor t = (case t_valor_avaliacao t of None \<Rightarrow> False | Some v \<Rightarrow> 0 < v)"

text \<open>The test frame of \<^verbatim>\<open>load_raw.py\<close> (without the timestamp column).\<close>

definition example_raw_frame :: frame where
  "example_raw_frame =
     \<lparr>nrows = 2,
      cols = [(''valor_avaliacao'', [CStr ''100.000,50'', CNaN]),
              (''bairro'', [CStr ''Boa Viagem'', CStr ''Casa Forte'']),
              (''tipo_imovel'', [CStr ''Apartamento'', CStr ''Casa'']),
              (''data_transacao'', [CStr ''2023-01-15'', CStr ''2023-02-20'']),
              (''source_year'', [CStr ''2023'', CStr ''2023'']),
              (''pipeline_type'', [CStr ''ELT'', CStr ''ELT''])]\<rparr>"

text \<open>A file in which one assessed value is a word, a typed frame with a value in every
  band and a missing one, and a transformed table with rows of two years.\<close>

definition mixed_frame :: frame where
  "mixed_frame =
     \<lparr>nrows = 2, cols = [(''valor_avaliacao'', [CStr ''150000,00'', CStr ''isento''])]\<rparr>"

definition banded_frame :: frame where
  "banded_frame =
     \<lparr>nrows = 5,
      cols = [(''valor_avaliacao'',
                 [CFloat 200000, CFloat 350000, CFloat 1000000, CFloat 1500000, CNaN]),
              (''bairro'', [CStr ''Pina'', CStr ''Pina'', CStr ''Pina'', CStr ''Pina'',
                            CStr ''Pina''])]\<rparr>"

definition banded_db :: db where
  "banded_db =
     \<lparr>itbi_raw = [],
      itbi_transformed =
        [transform_row example_raw_row,
         (transform_row example_raw_row)\<lparr>t_valor_avaliacao := Some 750000\<rparr>,
         (transform_row example_raw_row)\<lparr>t_valor_avaliacao := None\<rparr>,
         (transform_row example_raw_row)\<lparr>t_source_year := Some ''2024''\<rparr>],
      load_metadata = [],
      transformation_log = []\<rparr>"

text \<open>Two installations: pandas before 3 and pandas 3, each with a recent SQLite.\<close>

definition pandas2 :: runtime where
  "pandas2 = \<lparr>str_keeps_na = False, variable_limit = 32766\<rparr>"


text \<open>A frame of one record that was never tagged with a year.\<close>

definition untagged_frame :: frame where
  "untagged_frame =
     \<lparr>nrows = 1,
      cols = [(''valor_avaliacao'', [CStr ''100.000,50'']),
              (''bairro'', [CStr ''Boa Viagem''])]\<rparr>"

definition empty_db :: db where
  "empty_db = \<lparr>itbi_raw = [], itbi_transformed = [], load_metadata = [],
               transformation_log = []\<rparr>"


section \<open>Properties\<close>

lemma map_fst_assign_present:
  "c \<in> fst ` set l \<Longrightarrow> map fst (assign c v l) = map fst l"
  by (induction l) force+

lemma map_of_assign:
  "map_of (assign c v l) k = (if k = c then Some v else map_of l k)"
  by (induction l) auto

lemma filter_assign_other:
  "c \<in> fst ` set l \<Longrightarrow>
     filter (\<lambda>p. fst p \<noteq> c) (assign c v l) = filter (\<lambda>p. fst p \<noteq> c) l"
  by (induction l) force+

lemma get_col_in_columns:
  "get_col df c = Some xs \<Longrightarrow> c \<in> fst ` set (cols df)"
  unfolding get_col_def by (metis domI dom_map_of_conv_image_fst)

text \<open>
  Claim C9. The null-handling step changes nothing but the column
  \<^verbatim>\<open>complemento\<close>: the row count, the column names and their order stay as they
  are, every column with another name is returned as it was (nulls included), and in
  \<^verbatim>\<open>complemento\<close> exactly the null cells are replaced by the text
  \<^verbatim>\<open>Sem complemento\<close> while the other cells are kept.
\<close>

theorem handle_missing_values_frame:
  "nrows (handle_missing_values df) = nrows df
   \<and> columns (handle_missing_values df) = columns df
   \<and> filter (\<lambda>p. fst p \<noteq> ''complemento'') (cols (handle_missing_values df))
       = filter (\<lambda>p. fst p \<noteq> ''complemento'') (cols df)
   \<and> (\<forall>c. c \<noteq> ''complemento'' \<longrightarrow> get_col (handle_missing_values df) c = get_col df c)
   \<and> get_col (handle_missing_values df) ''complemento''
       = map_option (map (\<lambda>x. if x = CNaN then CStr ''Sem complemento'' else x))
           (get_col df ''complemento'')"
proof (cases "get_col df ''complemento''")
  case None
  then show ?thesis by (simp add: handle_missing_values_def)
next
  case (Some xs)
  then have mem: "''complemento'' \<in> fst ` set (cols df)"
    by (rule get_col_in_columns)
  have h: "handle_missing_values df
             = set_col df ''complemento'' (fillna (CStr ''Sem complemento'') xs)"
    using Some by (simp add: handle_missing_values_def)
  have n: "nrows (handle_missing_values df) = nrows df"
    by (simp add: h set_col_def)
  have c: "columns (handle_missing_values df) = columns df"
    using mem by (simp add: h set_col_def columns_def map_fst_assign_present)
  have f: "filter (\<lambda>p. fst p \<noteq> ''complemento'') (cols (handle_missing_values df))
             = filter (\<lambda>p. fst p \<noteq> ''complemento'') (cols df)"
    using mem by (simp add: h set_col_def filter_assign_other)
  have o: "\<forall>c. c \<noteq> ''complemento'' \<longrightarrow> get_col (handle_missing_values df) c = get_col df c"
    by (simp add: h set_col_def get_col_def map_of_assign)
  have m: "get_col (handle_missing_values df) ''complemento''
             = map_option (map (\<lambda>x. if x = CNaN then CStr ''Sem complemento'' else x))
                 (get_col df ''complemento'')"
    using Some by (simp add: h set_col_def get_col_def map_of_assign fillna_def pd_isna_def)
  from n c f o m show ?thesis by blast
qed

theorem handle_missing_values_frame_witness:
  "get_col (handle_missing_values
      \<lparr>nrows = 2, cols = [(''bairro'', [CNaN, CStr ''Varzea'']),
                          (''complemento'', [CNaN, CStr ''Apto 101''])]\<rparr>) ''bairro''
     = Some [CNaN, CStr ''Varzea'']
   \<and> get_col (handle_missing_values
      \<lparr>nrows = 2, cols = [(''bairro'', [CNaN, CStr ''Varzea'']),
                          (''complemento'', [CNaN, CStr ''Apto 101''])]\<rparr>) ''complemento''
     = Some [CStr ''Sem complemento'', CStr ''Apto 101'']"
  using handle_missing_values_frame
    [of "\<lparr>nrows = 2, cols = [(''bairro'', [CNaN, CStr ''Varzea'']),
                             (''complemento'', [CNaN, CStr ''Apto 101''])]\<rparr>"]
  by (simp add: get_col_def)

lemma faixa_labels_distinct:
  "baixo \<noteq> medio" "baixo \<noteq> alto" "baixo \<noteq> premium" "medio \<noteq> alto"
  "medio \<noteq> premium" "alto \<noteq> premium"
  "nao_informado \<noteq> baixo" "nao_informado \<noteq> medio" "nao_informado \<noteq> alto"
  "nao_informado \<noteq> premium"
  by (simp_all add: baixo_def medio_def alto_def premium_def nao_informado_def)

lemma classificar_valor_float:
  "classificar_valor (CFloat v) =
     Inr (CStr (if v \<le> 200000 then baixo else if v \<le> 500000 then medio
                else if v \<le> 1000000 then alto else premium))"
  by (simp add: classificar_valor_def pd_isna_def)

lemma sql_faixa_valor_Some:
  "sql_faixa_valor (Some v) =
     (if v \<le> 200000 then baixo else if v \<le> 500000 then medio
      else if v \<le> 1000000 then alto else premium)"
  by (simp add: sql_faixa_valor_def sql_true_def sql_le_def)

text \<open>The two classifiers on one value.\<close>

lemma faixa_valor_scalar:
  "(classificar_valor (CFloat v) = Inr (CStr baixo) \<longleftrightarrow> v \<le> 200000)
   \<and> (classificar_valor (CFloat v) = Inr (CStr medio) \<longleftrightarrow> 200000 < v \<and> v \<le> 500000)
   \<and> (classificar_valor (CFloat v) = Inr (CStr alto) \<longleftrightarrow> 500000 < v \<and> v \<le> 1000000)
   \<and> (classificar_valor (CFloat v) = Inr (CStr premium) \<longleftrightarrow> 1000000 < v)
   \<and> classificar_valor CNaN = Inr (CStr nao_informado)
   \<and> classificar_valor (CFloat v) \<noteq> Inr (CStr nao_informado)
   \<and> sql_faixa_valor x \<noteq> nao_informado
   \<and> classificar_valor (CFloat v) = Inr (CStr (sql_faixa_valor (Some v)))"
proof -
  note d = faixa_labels_distinct faixa_labels_distinct [symmetric]
  have a: "classificar_valor (CFloat v) = Inr (CStr baixo) \<longleftrightarrow> v \<le> 200000"
    by (simp add: classificar_valor_float d)
  have b: "classificar_valor (CFloat v) = Inr (CStr medio) \<longleftrightarrow> 200000 < v \<and> v \<le> 500000"
    by (simp add: classificar_valor_float d)
  have c: "classificar_valor (CFloat v) = Inr (CStr alto) \<longleftrightarrow> 500000 < v \<and> v \<le> 1000000"
    by (simp add: classificar_valor_float d)
  have e: "classificar_valor (CFloat v) = Inr (CStr premium) \<longleftrightarrow> 1000000 < v"
    by (simp add: classificar_valor_float d)
  have f: "classificar_valor CNaN = Inr (CStr nao_informado)"
    by (simp add: classificar_valor_def pd_isna_def)
  have g: "classificar_valor (CFloat v) \<noteq> Inr (CStr nao_informado)"
    by (simp add: classificar_valor_float d)
  have h: "sql_faixa_valor x \<noteq> nao_informado"
    by (simp add: sql_faixa_valor_def d)
  have i: "classificar_valor (CFloat v) = Inr (CStr (sql_faixa_valor (Some v)))"
    by (simp add: classificar_valor_float sql_faixa_valor_Some)
  from a b c e f g h i show ?thesis by blast
qed

subsection \<open>Numeric coercion\<close>

lemma replace_char_append:
  "replace_char c new (xs @ ys) = replace_char c new xs @ replace_char c new ys"
  by (simp add: replace_char_def)

lemma replace_char_Cons:
  "replace_char c new (x # xs) = (if x = c then new else [x]) @ replace_char c new xs"
  by (simp add: replace_char_def)

lemma replace_char_Nil: "replace_char c new [] = []"
  by (simp add: replace_char_def)

lemma replace_char_other: "c \<notin> set s \<Longrightarrow> replace_char c new s = s"
  by (induction s) (auto simp: replace_char_Nil replace_char_Cons)

lemma not_digit_separator: "\<not> is_digit CHR ''.''" "\<not> is_digit CHR '',''"
  by (simp_all add: is_digit_def)

lemma digits_no_separator:
  assumes "list_all is_digit s"
  shows "CHR ''.'' \<notin> set s \<and> CHR '','' \<notin> set s"
proof -
  have "\<forall>x \<in> set s. is_digit x"
    using assms by (simp add: list_all_iff)
  then show ?thesis
    using not_digit_separator by blast
qed

lemma digit_plain:
  assumes "is_digit c"
  shows "\<not> sqlite_isspace c \<and> c \<noteq> CHR ''-'' \<and> c \<noteq> CHR ''+''"
proof -
  have "c \<in> set ''0123456789''"
    using assms by (simp add: is_digit_def)
  then consider "c = CHR ''0''" | "c = CHR ''1''" | "c = CHR ''2''" | "c = CHR ''3''"
    | "c = CHR ''4''" | "c = CHR ''5''" | "c = CHR ''6''" | "c = CHR ''7''"
    | "c = CHR ''8''" | "c = CHR ''9''"
    by auto
  then show ?thesis
    by cases (simp_all add: sqlite_isspace_def)
qed

lemma sqlite_atof_decimal:
  assumes "D \<noteq> []" "list_all is_digit D" "list_all is_digit C"
  shows "sqlite_atof (D @ CHR ''.'' # C) = decimal_value (map digit_val D) (map digit_val C)"
proof -
  obtain d D' where D: "D = d # D'"
    using assms(1) by (cases D) auto
  have dd: "is_digit d" using assms(2) D by simp
  have nd: "\<not> is_digit CHR ''.''" by (simp add: is_digit_def)
  have allD: "\<forall>x \<in> set D. is_digit x" using assms(2) by (simp add: list_all_iff)
  have allC: "\<forall>x \<in> set C. is_digit x" using assms(3) by (simp add: list_all_iff)
  have s: "dropWhile sqlite_isspace (D @ CHR ''.'' # C) = D @ CHR ''.'' # C"
    using digit_plain [OF dd] by (simp add: D)
  have g: "take_sign (D @ CHR ''.'' # C) = (False, D @ CHR ''.'' # C)"
    using digit_plain [OF dd] by (simp add: D take_sign_def)
  have t1: "takeWhile is_digit (D @ CHR ''.'' # C) = D"
    using allD nd by (simp add: takeWhile_tail)
  have d1: "dropWhile is_digit (D @ CHR ''.'' # C) = CHR ''.'' # C"
    using allD nd by (simp add: dropWhile_append3)
  have t2: "takeWhile is_digit C = C"
    using allC by simp
  have d2: "dropWhile is_digit C = []"
    using allC by simp
  have e: "sqlite_exponent [] = 0"
    by (simp add: sqlite_exponent_def)
  show ?thesis
    unfolding sqlite_atof_def s g prod.case Let_def t1 d1
    by (simp add: t2 d2 e scale10_def)
qed

text \<open>
  For digits \<open>A\<close> (at least one), \<open>B\<close> and \<open>C\<close> the SQL expression reads the text
  \<open>A.B,C\<close> as the number with the integer digits \<open>AB\<close> and the fraction digits \<open>C\<close>.
\<close>

lemma sql_coerce_brazilian:
  assumes "A \<noteq> []" "list_all is_digit A" "list_all is_digit B" "list_all is_digit C"
  shows "sql_coerce_real (Some (A @ CHR ''.'' # B @ CHR '','' # C))
           = Some (decimal_value (map digit_val (A @ B)) (map digit_val C))"
proof -
  note nA = digits_no_separator [OF assms(2)]
  note nB = digits_no_separator [OF assms(3)]
  note nC = digits_no_separator [OF assms(4)]
  have r1: "replace_char CHR ''.'' [] (A @ CHR ''.'' # B @ CHR '','' # C) = A @ B @ CHR '','' # C"
    using nA nB nC by (simp add: replace_char_append replace_char_Cons replace_char_other)
  have r2: "replace_char CHR '','' ''.'' (A @ B @ CHR '','' # C) = (A @ B) @ CHR ''.'' # C"
    using nA nB nC by (simp add: replace_char_append replace_char_Cons replace_char_other)
  have v: "sqlite_atof ((A @ B) @ CHR ''.'' # C)
          = decimal_value (map digit_val (A @ B)) (map digit_val C)"
    using assms by (intro sqlite_atof_decimal) auto
  show ?thesis
    unfolding sql_coerce_real_def sql_cast_real_def sql_replace_def option.map r1 r2 v
    by (rule refl)
qed

lemmas float_parse_defs =
  py_float_def take_sign_def strip_def is_space_def lower_char_def py_number_def
  digitpart_def is_digit_def digit_val_def py_exponent_def scale10_def decimal_value_def
  digits_val_def

lemmas sql_parse_defs =
  sql_coerce_real_def sql_cast_real_def sql_replace_def replace_char_def sqlite_atof_def
  sqlite_isspace_def sqlite_exponent_def take_sign_def is_digit_def digit_val_def
  scale10_def decimal_value_def digits_val_def

text \<open>
  Claim C1. The two coercions at the text \<^verbatim>\<open>200.000,50\<close>. In process,
  \<^verbatim>\<open>convert_currency_format\<close> only turns the comma into a point and keeps the
  thousands separator, \<^verbatim>\<open>float\<close> rejects the text \<^verbatim>\<open>200.000.50\<close>, and
  \<^verbatim>\<open>fix_data_types\<close> leaves the column holding that text. In the database the same
  text coerces to 200000.5.
\<close>

theorem coercion_thousands_separator:
  "convert_currency_format float_repr (CStr ''200.000,50'') = CStr ''200.000.50''
   \<and> py_float ''200.000.50'' = Inl ValueError
   \<and> get_col (fix_numeric_column float_repr
         \<lparr>nrows = 1, cols = [(''valor_avaliacao'', [CStr ''200.000,50''])]\<rparr>
         ''valor_avaliacao'') ''valor_avaliacao'' = Some [CStr ''200.000.50'']
   \<and> sql_coerce_real (Some ''200.000,50'') = Some 200000.5"
proof -
  have a: "convert_currency_format float_repr (CStr ''200.000,50'') = CStr ''200.000.50''"
    by (simp add: convert_currency_format_def pd_isna_def replace_char_def)
  have b: "py_float ''200.000.50'' = Inl ValueError"
    by (simp add: float_parse_defs)
  have c: "get_col (fix_numeric_column float_repr
         \<lparr>nrows = 1, cols = [(''valor_avaliacao'', [CStr ''200.000,50''])]\<rparr>
         ''valor_avaliacao'') ''valor_avaliacao'' = Some [CStr ''200.000.50'']"
    by (simp add: fix_numeric_column_def get_col_def set_col_def a b astype_float_def)
  have d: "sql_coerce_real (Some ''200.000,50'') = Some 200000.5"
    by (simp add: sql_parse_defs)
  from a b c d show ?thesis by blast
qed

subsection \<open>The example row\<close>

lemma utf8_decode_ascii: "list_all (\<lambda>b. b < 128) bs \<Longrightarrow> utf8_decode bs = Some bs"
  by (induction bs) auto

lemma fix_encoding_ascii:
  assumes "list_all (\<lambda>c. (of_char c :: nat) < 128) s"
  shows "fix_encoding (CStr s) = CStr s"
proof -
  have a: "list_all (\<lambda>b. b < 128) (map of_char s :: nat list)"
    using assms by (simp add: list_all_iff)
  have b: "list_all (\<lambda>cp. cp < 256) (map of_char s :: nat list)"
    using assms by (auto simp: list_all_iff)
  have c: "map char_of (map of_char s :: nat list) = s"
    by (simp add: comp_def)
  show ?thesis
    using utf8_decode_ascii [OF a] b c by simp
qed

lemma parse_example_date: "parse_iso_date ''2023-06-15'' = Some (2023, 6, 15)"
  by (simp add: parse_iso_date_def is_digit_def digit_val_def digits_val_def
      days_in_month_def leap_year_def)

lemma example_clean: "clean_column_names example_frame = Inr example_frame"
  by (simp add: clean_column_names_def example_frame_def rename_col_def columns_def Let_def)

lemma example_missing: "handle_missing_values example_frame = example_frame"
  by (simp add: handle_missing_values_def example_frame_def get_col_def)

lemma example_encoding: "fix_text_encoding example_frame = example_frame"
  by (simp add: fix_text_encoding_def example_frame_def exclude_columns_def fix_encoding_ascii
      del: fix_encoding.simps(1))

lemma example_floats:
  "py_float ''150.000.00'' = Inl ValueError"
  "py_float ''50.0'' = Inr (CFloat 50)"
  "py_float ''0.00'' = Inr (CFloat 0)"
  by (simp_all add: float_parse_defs)

lemma example_types:
  "fix_data_types float_repr example_frame =
     \<lparr>nrows = 1,
      cols = [(''valor_avaliacao'', [CStr ''150.000.00'']),
              (''area_construida'', [CFloat 50]),
              (''ano_construcao'', [CInt 2010]),
              (''data_transacao'', [CDate 2023 6 15]),
              (''valores_financiados_sfh'', [CFloat 0])]\<rparr>"
  by (simp add: fix_data_types_def numeric_columns_def fix_numeric_column_def
      fix_date_column_def example_frame_def get_col_def set_col_def
      convert_currency_format_def pd_isna_def replace_char_def astype_float_def
      example_floats parse_example_date)

lemma example_step1:
  "add_valor_por_m2
     \<lparr>nrows = 1,
      cols = [(''valor_avaliacao'', [CStr ''150.000.00'']),
              (''area_construida'', [CFloat 50]),
              (''ano_construcao'', [CInt 2010]),
              (''data_transacao'', [CDate 2023 6 15]),
              (''valores_financiados_sfh'', [CFloat 0])]\<rparr> =
     \<lparr>nrows = 1,
      cols = [(''valor_avaliacao'', [CStr ''150.000.00'']),
              (''area_construida'', [CFloat 50]),
              (''ano_construcao'', [CInt 2010]),
              (''data_transacao'', [CDate 2023 6 15]),
              (''valores_financiados_sfh'', [CFloat 0])]\<rparr>"
  by (simp add: add_valor_por_m2_def col_or_raise_def get_col_def map2_err_def py_truediv_def)

lemma example_step2:
  "add_idade_imovel
     \<lparr>nrows = 1,
      cols = [(''valor_avaliacao'', [CStr ''150.000.00'']),
              (''area_construida'', [CFloat 50]),
              (''ano_construcao'', [CInt 2010]),
              (''data_transacao'', [CDate 2023 6 15]),
              (''valores_financiados_sfh'', [CFloat 0])]\<rparr> =
     \<lparr>nrows = 1,
      cols = [(''valor_avaliacao'', [CStr ''150.000.00'']),
              (''area_construida'', [CFloat 50]),
              (''ano_construcao'', [CInt 2010]),
              (''data_transacao'', [CDate 2023 6 15]),
              (''valores_financiados_sfh'', [CFloat 0]),
              (''idade_imovel'', [CInt 13])]\<rparr>"
  by (simp add: add_idade_imovel_def col_or_raise_def get_col_def set_col_def map2_err_def
      py_sub_def dt_year_def dt_field_def)

lemma example_step3:
  "add_faixa_valor
     \<lparr>nrows = 1,
      cols = [(''valor_avaliacao'', [CStr ''150.000.00'']),
              (''area_construida'', [CFloat 50]),
              (''ano_construcao'', [CInt 2010]),
              (''data_transacao'', [CDate 2023 6 15]),
              (''valores_financiados_sfh'', [CFloat 0]),
              (''idade_imovel'', [CInt 13])]\<rparr> =
     \<lparr>nrows = 1,
      cols = [(''valor_avaliacao'', [CStr ''150.000.00'']),
              (''area_construida'', [CFloat 50]),
              (''ano_construcao'', [CInt 2010]),
              (''data_transacao'', [CDate 2023 6 15]),
              (''valores_financiados_sfh'', [CFloat 0]),
              (''idade_imovel'', [CInt 13])]\<rparr>"
  by (simp add: add_faixa_valor_def col_or_raise_def get_col_def classificar_valor_def
      pd_isna_def)

lemma example_step4:
  "add_tem_financiamento
     \<lparr>nrows = 1,
      cols = [(''valor_avaliacao'', [CStr ''150.000.00'']),
              (''area_construida'', [CFloat 50]),
              (''ano_construcao'', [CInt 2010]),
              (''data_transacao'', [CDate 2023 6 15]),
              (''valores_financiados_sfh'', [CFloat 0]),
              (''idade_imovel'', [CInt 13])]\<rparr> =
     \<lparr>nrows = 1,
      cols = [(''valor_avaliacao'', [CStr ''150.000.00'']),
              (''area_construida'', [CFloat 50]),
              (''ano_construcao'', [CInt 2010]),
              (''data_transacao'', [CDate 2023 6 15]),
              (''valores_financiados_sfh'', [CFloat 0]),
              (''idade_imovel'', [CInt 13]),
              (''tem_financiamento'', [CBool False])]\<rparr>"
  by (simp add: add_tem_financiamento_def get_col_def set_col_def)

lemma example_step5:
  "add_temporal
     \<lparr>nrows = 1,
      cols = [(''valor_avaliacao'', [CStr ''150.000.00'']),
              (''area_construida'', [CFloat 50]),
              (''ano_construcao'', [CInt 2010]),
              (''data_transacao'', [CDate 2023 6 15]),
              (''valores_financiados_sfh'', [CFloat 0]),
              (''idade_imovel'', [CInt 13]),
              (''tem_financiamento'', [CBool False])]\<rparr> =
     \<lparr>nrows = 1,
      cols = [(''valor_avaliacao'', [CStr ''150.000.00'']),
              (''area_construida'', [CFloat 50]),
              (''ano_construcao'', [CInt 2010]),
              (''data_transacao'', [CDate 2023 6 15]),
              (''valores_financiados_sfh'', [CFloat 0]),
              (''idade_imovel'', [CInt 13]),
              (''tem_financiamento'', [CBool False]),
              (''mes_transacao'', [CInt 6]),
              (''trimestre'', [CInt 2]),
              (''ano_transacao'', [CInt 2023])]\<rparr>"
  by (simp add: add_temporal_def get_col_def set_col_def dt_year_def dt_month_def
      dt_quarter_def dt_field_def)

lemma example_metrics:
  "create_derived_metrics
     \<lparr>nrows = 1,
      cols = [(''valor_avaliacao'', [CStr ''150.000.00'']),
              (''area_construida'', [CFloat 50]),
              (''ano_construcao'', [CInt 2010]),
              (''data_transacao'', [CDate 2023 6 15]),
              (''valores_financiados_sfh'', [CFloat 0])]\<rparr> =
     \<lparr>nrows = 1,
      cols = [(''valor_avaliacao'', [CStr ''150.000.00'']),
              (''area_construida'', [CFloat 50]),
              (''ano_construcao'', [CInt 2010]),
              (''data_transacao'', [CDate 2023 6 15]),
              (''valores_financiados_sfh'', [CFloat 0]),
              (''idade_imovel'', [CInt 13]),
              (''tem_financiamento'', [CBool False]),
              (''mes_transacao'', [CInt 6]),
              (''trimestre'', [CInt 2]),
              (''ano_transacao'', [CInt 2023])]\<rparr>"
  unfolding create_derived_metrics_def
  by (simp only: example_step1 example_step2 example_step3 example_step4 example_step5)

lemma example_transform:
  "transform_dataset float_repr example_frame =
     Inr \<lparr>nrows = 1,
      cols = [(''valor_avaliacao'', [CStr ''150.000.00'']),
              (''area_construida'', [CFloat 50]),
              (''ano_construcao'', [CInt 2010]),
              (''data_transacao'', [CDate 2023 6 15]),
              (''valores_financiados_sfh'', [CFloat 0]),
              (''idade_imovel'', [CInt 13]),
              (''tem_financiamento'', [CBool False]),
              (''mes_transacao'', [CInt 6]),
              (''trimestre'', [CInt 2]),
              (''ano_transacao'', [CInt 2023])]\<rparr>"
  unfolding transform_dataset_def
  by (simp only: example_clean sum.case example_missing example_encoding
      example_types example_metrics)

lemmas sql_row_defs =
  derive_row_def transform_row_def update_valor_m2_def update_idade_def
  update_financiamento_def update_faixa_valor_def update_categoria_area_def
  update_periodo_construcao_def sql_true_def sql_gt_def sql_le_def sql_div_def
  sql_nullif_real_def sql_round2_def sqlite_round2_def sql_int_sub_def sql_cast_integer_def
  sqlite_atoi_def sql_year_def sql_month_def sql_date_def sql_trimestre_def sql_between_def
  sql_faixa_valor_def sql_categoria_area_def sql_periodo_construcao_def sql_int_lt_def
  sql_trim_def sql_nullif_def

lemma example_sql_row:
  "t_valor_avaliacao (derive_row (transform_row example_raw_row)) = Some 150000"
  "t_area_construida (derive_row (transform_row example_raw_row)) = Some 50"
  "t_valor_por_m2 (derive_row (transform_row example_raw_row)) = Some 3000"
  "t_idade_imovel (derive_row (transform_row example_raw_row)) = Some 13"
  "t_faixa_valor (derive_row (transform_row example_raw_row)) = Some baixo"
  "t_tem_financiamento (derive_row (transform_row example_raw_row)) = Some 0"
  "t_mes_transacao (derive_row (transform_row example_raw_row)) = Some 6"
  "t_trimestre (derive_row (transform_row example_raw_row)) = Some 2"
  by (simp_all add: example_raw_row_def sql_row_defs sql_parse_defs parse_example_date)

text \<open>
  Claim C3, as stated: the in-process transform of the example row does not produce the
  output of the specification. The column \<^verbatim>\<open>valor_avaliacao\<close> is still a text, and the
  columns \<^verbatim>\<open>valor_por_m2\<close> and \<^verbatim>\<open>faixa_valor\<close> do not exist.
\<close>

theorem example_row_counterexample:
  "\<not> (case transform_dataset no_float_repr example_frame of
         Inl e \<Rightarrow> False
       | Inr out \<Rightarrow> example_expected out)"
  by (simp add: example_transform example_expected_def get_col_def)

text \<open>
  Claim C3, amended. The value 150000 is in the band \<^verbatim>\<open>Baixo\<close> (up to 200000), not
  in \<^verbatim>\<open>Medio\<close>. The in-database transform of the example row gives value 150000,
  built area 50, value per area 3000, age 13, bucket \<^verbatim>\<open>Baixo\<close>, financing flag 0,
  month 6 and quarter 2. The in-process transform of the example row gives built area
  50.0, age 13, financing flag false, month 6 and quarter 2.
\<close>

theorem example_row_amended:
  "classificar_valor (CFloat 150000) = Inr (CStr baixo)
   \<and> t_valor_avaliacao (derive_row (transform_row example_raw_row)) = Some 150000
   \<and> t_area_construida (derive_row (transform_row example_raw_row)) = Some 50
   \<and> t_valor_por_m2 (derive_row (transform_row example_raw_row)) = Some 3000
   \<and> t_idade_imovel (derive_row (transform_row example_raw_row)) = Some 13
   \<and> t_faixa_valor (derive_row (transform_row example_raw_row)) = Some baixo
   \<and> t_tem_financiamento (derive_row (transform_row example_raw_row)) = Some 0
   \<and> t_mes_transacao (derive_row (transform_row example_raw_row)) = Some 6
   \<and> t_trimestre (derive_row (transform_row example_raw_row)) = Some 2
   \<and> (case transform_dataset float_repr example_frame of
         Inl e \<Rightarrow> False
       | Inr out \<Rightarrow>
           get_col out ''area_construida'' = Some [CFloat 50]
           \<and> get_col out ''idade_imovel'' = Some [CInt 13]
           \<and> get_col out ''tem_financiamento'' = Some [CBool False]
           \<and> get_col out ''mes_transacao'' = Some [CInt 6]
           \<and> get_col out ''trimestre'' = Some [CInt 2])"
proof -
  have a: "classificar_valor (CFloat 150000) = Inr (CStr baixo)"
    by (simp add: classificar_valor_float)
  have b: "case transform_dataset float_repr example_frame of
         Inl e \<Rightarrow> False
       | Inr out \<Rightarrow>
           get_col out ''area_construida'' = Some [CFloat 50]
           \<and> get_col out ''idade_imovel'' = Some [CInt 13]
           \<and> get_col out ''tem_financiamento'' = Some [CBool False]
           \<and> get_col out ''mes_transacao'' = Some [CInt 6]
           \<and> get_col out ''trimestre'' = Some [CInt 2]"
    by (simp add: example_transform get_col_def)
  from a b example_sql_row show ?thesis by blast
qed

subsection \<open>Value bucket of every record\<close>

lemma get_col_set_col:
  "get_col (set_col df c v) k = (if k = c then Some v else get_col df k)"
  by (simp add: get_col_def set_col_def map_of_assign)

lemma add_valor_por_m2_other:
  "k \<noteq> ''valor_por_m2'' \<Longrightarrow> get_col (add_valor_por_m2 df) k = get_col df k"
  by (simp add: add_valor_por_m2_def get_col_set_col split: sum.splits)

lemma add_idade_imovel_other:
  "k \<noteq> ''idade_imovel'' \<Longrightarrow> get_col (add_idade_imovel df) k = get_col df k"
  by (simp add: add_idade_imovel_def get_col_set_col split: sum.splits)

lemma add_faixa_valor_other:
  "k \<noteq> ''faixa_valor'' \<Longrightarrow> get_col (add_faixa_valor df) k = get_col df k"
  by (simp add: add_faixa_valor_def get_col_set_col split: sum.splits)

lemma add_tem_financiamento_other:
  "k \<noteq> ''tem_financiamento'' \<Longrightarrow> get_col (add_tem_financiamento df) k = get_col df k"
  by (simp add: add_tem_financiamento_def get_col_set_col split: sum.splits option.splits)

lemma add_temporal_other:
  "k \<noteq> ''mes_transacao'' \<Longrightarrow> k \<noteq> ''trimestre'' \<Longrightarrow> k \<noteq> ''ano_transacao'' \<Longrightarrow>
     get_col (add_temporal df) k = get_col df k"
  by (simp add: add_temporal_def get_col_set_col Let_def split: sum.splits option.splits)

lemma create_derived_metrics_faixa_valor:
  "get_col (create_derived_metrics df) ''faixa_valor''
     = get_col (add_faixa_valor (add_idade_imovel (add_valor_por_m2 df))) ''faixa_valor''"
  by (simp add: create_derived_metrics_def add_temporal_other add_tem_financiamento_other)

lemma create_derived_metrics_valor:
  "get_col (create_derived_metrics df) ''valor_avaliacao'' = get_col df ''valor_avaliacao''"
  by (simp add: create_derived_metrics_def add_temporal_other add_tem_financiamento_other
      add_faixa_valor_other add_idade_imovel_other add_valor_por_m2_other)

lemma classificar_valor_column:
  "\<forall>x \<in> set vs. x = CNaN \<or> (\<exists>v. x = CFloat v) \<Longrightarrow>
     map_err classificar_valor vs
       = Inr (map (\<lambda>x. case x of CFloat v \<Rightarrow> CStr (sql_faixa_valor (Some v))
                               | _ \<Rightarrow> CStr nao_informado) vs)"
proof (induction vs)
  case Nil
  then show ?case by simp
next
  case (Cons x xs)
  have n: "classificar_valor CNaN = Inr (CStr nao_informado)"
    by (simp add: classificar_valor_def pd_isna_def)
  from Cons show ?case
    by (auto simp: n classificar_valor_float sql_faixa_valor_Some)
qed

lemma add_faixa_valor_column:
  assumes "get_col df ''valor_avaliacao'' = Some vs"
    and "\<forall>x \<in> set vs. x = CNaN \<or> (\<exists>v. x = CFloat v)"
  shows "get_col (create_derived_metrics df) ''faixa_valor''
     = Some (map (\<lambda>x. case x of CFloat v \<Rightarrow> CStr (sql_faixa_valor (Some v))
                              | _ \<Rightarrow> CStr nao_informado) vs)"
proof -
  have v: "get_col (add_idade_imovel (add_valor_por_m2 df)) ''valor_avaliacao'' = Some vs"
    using assms(1) by (simp add: add_idade_imovel_other add_valor_por_m2_other)
  show ?thesis
    unfolding create_derived_metrics_faixa_valor
    by (simp add: add_faixa_valor_def col_or_raise_def v classificar_valor_column [OF assms(2)]
        get_col_set_col)
qed

lemma sql_faixa_valor_bands:
  "(sql_faixa_valor (Some v) = baixo \<longleftrightarrow> v \<le> 200000)"
  "(sql_faixa_valor (Some v) = medio \<longleftrightarrow> 200000 < v \<and> v \<le> 500000)"
  "(sql_faixa_valor (Some v) = alto \<longleftrightarrow> 500000 < v \<and> v \<le> 1000000)"
  "(sql_faixa_valor (Some v) = premium \<longleftrightarrow> 1000000 < v)"
  "sql_faixa_valor None = premium"
  using faixa_labels_distinct faixa_labels_distinct [symmetric]
  by (simp_all add: sql_faixa_valor_Some) (simp add: sql_faixa_valor_def sql_true_def sql_le_def)

lemma derive_row_faixa_valor:
  "t_valor_avaliacao (derive_row t) = t_valor_avaliacao t"
  "t_source_year (derive_row t) = t_source_year t"
  "t_faixa_valor (derive_row t) = Some (sql_faixa_valor (t_valor_avaliacao t))"
  by (simp_all add: derive_row_def update_periodo_construcao_def update_categoria_area_def
      update_faixa_valor_def update_financiamento_def update_idade_def update_valor_m2_def)

lemma rows_create_derived_metrics_in_db:
  "itbi_transformed (fst (create_derived_metrics_in_db year d))
     = map (\<lambda>t. if t_source_year t = Some year then derive_row t else t) (itbi_transformed d)"
  by (simp add: create_derived_metrics_in_db_def Let_def)

text \<open>
  Claim C2, as stated: in the file below the second assessed value is a word. The
  in-process transform returns a frame in which the column of values is still text and
  there is no column \<^verbatim>\<open>faixa_valor\<close>, so the first record, whose value 150000,00 is
  below 200000, gets no bucket.
\<close>

theorem faixa_valor_counterexample:
  "(case transform_dataset no_float_repr mixed_frame of
      Inl e \<Rightarrow> False
    | Inr out \<Rightarrow>
        nrows out = 2
        \<and> get_col out ''valor_avaliacao'' = Some [CStr ''150000.00'', CStr ''isento'']
        \<and> get_col out ''faixa_valor'' = None)"
proof -
  have c: "clean_column_names mixed_frame = Inr mixed_frame"
    by (simp add: clean_column_names_def mixed_frame_def rename_col_def columns_def Let_def)
  have m: "handle_missing_values mixed_frame = mixed_frame"
    by (simp add: handle_missing_values_def mixed_frame_def get_col_def)
  have e: "fix_text_encoding mixed_frame = mixed_frame"
    by (simp add: fix_text_encoding_def mixed_frame_def exclude_columns_def fix_encoding_ascii
        del: fix_encoding.simps(1))
  have f: "py_float ''150000.00'' = Inr (CFloat 150000)" "py_float ''isento'' = Inl ValueError"
    by (simp_all add: float_parse_defs)
  have t: "fix_data_types no_float_repr mixed_frame =
      \<lparr>nrows = 2, cols = [(''valor_avaliacao'', [CStr ''150000.00'', CStr ''isento''])]\<rparr>"
    by (simp add: fix_data_types_def numeric_columns_def fix_numeric_column_def
        fix_date_column_def mixed_frame_def get_col_def set_col_def
        convert_currency_format_def pd_isna_def replace_char_def astype_float_def f)
  have d: "create_derived_metrics
      \<lparr>nrows = 2, cols = [(''valor_avaliacao'', [CStr ''150000.00'', CStr ''isento''])]\<rparr>
      = \<lparr>nrows = 2, cols = [(''valor_avaliacao'', [CStr ''150000.00'', CStr ''isento''])]\<rparr>"
    by (simp add: create_derived_metrics_def add_valor_por_m2_def add_idade_imovel_def
        add_faixa_valor_def add_tem_financiamento_def add_temporal_def col_or_raise_def
        get_col_def classificar_valor_def pd_isna_def)
  have r: "transform_dataset no_float_repr mixed_frame =
      Inr \<lparr>nrows = 2, cols = [(''valor_avaliacao'', [CStr ''150000.00'', CStr ''isento''])]\<rparr>"
    unfolding transform_dataset_def
    by (simp only: c sum.case m e t d)
  show ?thesis
    unfolding r by (simp add: get_col_def)
qed

text \<open>
  Claim C2, amended. In process: when the column \<^verbatim>\<open>valor_avaliacao\<close> of a frame holds
  only numbers and missing values, \<^verbatim>\<open>create_derived_metrics\<close> keeps that column and
  adds a column \<^verbatim>\<open>faixa_valor\<close> of the same length in which, for every record, a
  missing value has the label \<^verbatim>\<open>Nao informado\<close> and a number \<open>v\<close> has the label
  \<^verbatim>\<open>Baixo\<close> exactly when \<open>v \<le> 200000\<close>, \<^verbatim>\<open>Medio\<close> exactly when
  \<open>200000 < v \<le> 500000\<close>, \<^verbatim>\<open>Alto\<close> exactly when \<open>500000 < v \<le> 1000000\<close> and
  \<^verbatim>\<open>Premium\<close> exactly when \<open>v > 1000000\<close>. In the database:
  \<^verbatim>\<open>create_derived_metrics_in_db\<close> keeps the number of rows, leaves the rows of other
  years as they are, and gives every row of the year, with its value unchanged, the label
  of the same four bands; the \<^verbatim>\<open>CASE\<close> has no branch for NULL, so a row without a
  value falls to \<^verbatim>\<open>ELSE\<close> and is labelled \<^verbatim>\<open>Premium\<close>. On every number both
  variants give the label the \<^verbatim>\<open>CASE\<close> expression gives, hence the same one, and the
  five labels are pairwise different.
\<close>

theorem faixa_valor_records:
  assumes "get_col df ''valor_avaliacao'' = Some vs"
    and "\<forall>x \<in> set vs. x = CNaN \<or> (\<exists>v. x = CFloat v)"
  shows "get_col (create_derived_metrics df) ''valor_avaliacao'' = Some vs
   \<and> (\<exists>col. get_col (create_derived_metrics df) ''faixa_valor'' = Some col
         \<and> length col = length vs
         \<and> (\<forall>i < length vs.
               (vs ! i = CNaN \<longrightarrow> col ! i = CStr nao_informado)
             \<and> (\<forall>v. vs ! i = CFloat v \<longrightarrow>
                    (col ! i = CStr baixo \<longleftrightarrow> v \<le> 200000)
                  \<and> (col ! i = CStr medio \<longleftrightarrow> 200000 < v \<and> v \<le> 500000)
                  \<and> (col ! i = CStr alto \<longleftrightarrow> 500000 < v \<and> v \<le> 1000000)
                  \<and> (col ! i = CStr premium \<longleftrightarrow> 1000000 < v)
                  \<and> col ! i = CStr (sql_faixa_valor (Some v)))))
   \<and> length (itbi_transformed (fst (create_derived_metrics_in_db year d)))
       = length (itbi_transformed d)
   \<and> (\<forall>j < length (itbi_transformed d).
         (t_source_year (itbi_transformed d ! j) \<noteq> Some year \<longrightarrow>
            itbi_transformed (fst (create_derived_metrics_in_db year d)) ! j
              = itbi_transformed d ! j)
       \<and> (t_source_year (itbi_transformed d ! j) = Some year \<longrightarrow>
            t_source_year (itbi_transformed (fst (create_derived_metrics_in_db year d)) ! j)
              = Some year
          \<and> t_valor_avaliacao (itbi_transformed (fst (create_derived_metrics_in_db year d)) ! j)
              = t_valor_avaliacao (itbi_transformed d ! j)
          \<and> t_faixa_valor (itbi_transformed (fst (create_derived_metrics_in_db year d)) ! j)
              = Some (sql_faixa_valor (t_valor_avaliacao (itbi_transformed d ! j)))
          \<and> (t_valor_avaliacao (itbi_transformed d ! j) = None \<longrightarrow>
               t_faixa_valor (itbi_transformed (fst (create_derived_metrics_in_db year d)) ! j)
                 = Some premium)
          \<and> (\<forall>v. t_valor_avaliacao (itbi_transformed d ! j) = Some v \<longrightarrow>
                 (t_faixa_valor (itbi_transformed (fst (create_derived_metrics_in_db year d)) ! j)
                    = Some baixo \<longleftrightarrow> v \<le> 200000)
               \<and> (t_faixa_valor (itbi_transformed (fst (create_derived_metrics_in_db year d)) ! j)
                    = Some medio \<longleftrightarrow> 200000 < v \<and> v \<le> 500000)
               \<and> (t_faixa_valor (itbi_transformed (fst (create_derived_metrics_in_db year d)) ! j)
                    = Some alto \<longleftrightarrow> 500000 < v \<and> v \<le> 1000000)
               \<and> (t_faixa_valor (itbi_transformed (fst (create_derived_metrics_in_db year d)) ! j)
                    = Some premium \<longleftrightarrow> 1000000 < v))))
   \<and> distinct [nao_informado, baixo, medio, alto, premium]"
proof -
  let ?f = "\<lambda>x. case x of CFloat v \<Rightarrow> CStr (sql_faixa_valor (Some v))
                         | _ \<Rightarrow> CStr nao_informado"
  let ?rows = "itbi_transformed d"
  let ?rows' = "itbi_transformed (fst (create_derived_metrics_in_db year d))"
  have a: "get_col (create_derived_metrics df) ''valor_avaliacao'' = Some vs"
    using assms(1) by (simp add: create_derived_metrics_valor)
  have col: "get_col (create_derived_metrics df) ''faixa_valor'' = Some (map ?f vs)"
    using assms by (rule add_faixa_valor_column)
  have rec: "\<forall>i < length vs.
               (vs ! i = CNaN \<longrightarrow> map ?f vs ! i = CStr nao_informado)
             \<and> (\<forall>v. vs ! i = CFloat v \<longrightarrow>
                    (map ?f vs ! i = CStr baixo \<longleftrightarrow> v \<le> 200000)
                  \<and> (map ?f vs ! i = CStr medio \<longleftrightarrow> 200000 < v \<and> v \<le> 500000)
                  \<and> (map ?f vs ! i = CStr alto \<longleftrightarrow> 500000 < v \<and> v \<le> 1000000)
                  \<and> (map ?f vs ! i = CStr premium \<longleftrightarrow> 1000000 < v)
                  \<and> map ?f vs ! i = CStr (sql_faixa_valor (Some v)))"
    by (simp add: sql_faixa_valor_bands)
  have b: "\<exists>col. get_col (create_derived_metrics df) ''faixa_valor'' = Some col
         \<and> length col = length vs
         \<and> (\<forall>i < length vs.
               (vs ! i = CNaN \<longrightarrow> col ! i = CStr nao_informado)
             \<and> (\<forall>v. vs ! i = CFloat v \<longrightarrow>
                    (col ! i = CStr baixo \<longleftrightarrow> v \<le> 200000)
                  \<and> (col ! i = CStr medio \<longleftrightarrow> 200000 < v \<and> v \<le> 500000)
                  \<and> (col ! i = CStr alto \<longleftrightarrow> 500000 < v \<and> v \<le> 1000000)
                  \<and> (col ! i = CStr premium \<longleftrightarrow> 1000000 < v)
                  \<and> col ! i = CStr (sql_faixa_valor (Some v))))"
    using col rec by (intro exI [of _ "map ?f vs"] conjI) simp_all
  have c: "length ?rows' = length ?rows"
    by (simp add: rows_create_derived_metrics_in_db)
  have e: "\<forall>j < length ?rows.
         (t_source_year (?rows ! j) \<noteq> Some year \<longrightarrow> ?rows' ! j = ?rows ! j)
       \<and> (t_source_year (?rows ! j) = Some year \<longrightarrow>
            t_source_year (?rows' ! j) = Some year
          \<and> t_valor_avaliacao (?rows' ! j) = t_valor_avaliacao (?rows ! j)
          \<and> t_faixa_valor (?rows' ! j) = Some (sql_faixa_valor (t_valor_avaliacao (?rows ! j)))
          \<and> (t_valor_avaliacao (?rows ! j) = None \<longrightarrow> t_faixa_valor (?rows' ! j) = Some premium)
          \<and> (\<forall>v. t_valor_avaliacao (?rows ! j) = Some v \<longrightarrow>
                 (t_faixa_valor (?rows' ! j) = Some baixo \<longleftrightarrow> v \<le> 200000)
               \<and> (t_faixa_valor (?rows' ! j) = Some medio \<longleftrightarrow> 200000 < v \<and> v \<le> 500000)
               \<and> (t_faixa_valor (?rows' ! j) = Some alto \<longleftrightarrow> 500000 < v \<and> v \<le> 1000000)
               \<and> (t_faixa_valor (?rows' ! j) = Some premium \<longleftrightarrow> 1000000 < v)))"
    by (simp add: rows_create_derived_metrics_in_db derive_row_faixa_valor
        sql_faixa_valor_bands)
  have g: "distinct [nao_informado, baixo, medio, alto, premium]"
    using faixa_labels_distinct by simp
  from a b c e g show ?thesis by blast
qed

lemma list_of_length:
  "length l = 5 \<Longrightarrow> l = [l ! 0, l ! 1, l ! 2, l ! 3, l ! 4]"
  "length l = 4 \<Longrightarrow> l = [l ! 0, l ! 1, l ! 2, l ! 3]"
  by (auto simp: length_Suc_conv numeral_eq_Suc)

lemma banded_rows:
  "t_source_year (transform_row example_raw_row) = Some ''2023''"
  "t_valor_avaliacao (transform_row example_raw_row) = Some 150000"
  by (simp_all add: example_raw_row_def sql_row_defs sql_parse_defs parse_example_date)

theorem faixa_valor_records_witness:
  "get_col banded_frame ''valor_avaliacao''
      = Some [CFloat 200000, CFloat 350000, CFloat 1000000, CFloat 1500000, CNaN]
   \<and> get_col (create_derived_metrics banded_frame) ''faixa_valor''
      = Some [CStr baixo, CStr medio, CStr alto, CStr premium, CStr nao_informado]
   \<and> map t_faixa_valor (itbi_transformed (fst (create_derived_metrics_in_db ''2023'' banded_db)))
      = [Some baixo, Some alto, Some premium, None]"
proof -
  have h1: "get_col banded_frame ''valor_avaliacao''
      = Some [CFloat 200000, CFloat 350000, CFloat 1000000, CFloat 1500000, CNaN]"
    by (simp add: banded_frame_def get_col_def)
  have h2: "\<forall>x \<in> set [CFloat 200000, CFloat 350000, CFloat 1000000, CFloat 1500000, CNaN].
         x = CNaN \<or> (\<exists>v. x = CFloat v)"
    by simp
  note t = faixa_valor_records [OF h1 h2, of "''2023''" banded_db]
  let ?vs = "[CFloat 200000, CFloat 350000, CFloat 1000000, CFloat 1500000, CNaN]"
  obtain col where
    c: "get_col (create_derived_metrics banded_frame) ''faixa_valor'' = Some col"
    and l': "length col = length ?vs"
    and r': "\<forall>i < length ?vs.
               (?vs ! i = CNaN \<longrightarrow> col ! i = CStr nao_informado)
             \<and> (\<forall>v. ?vs ! i = CFloat v \<longrightarrow>
                    (col ! i = CStr baixo \<longleftrightarrow> v \<le> 200000)
                  \<and> (col ! i = CStr medio \<longleftrightarrow> 200000 < v \<and> v \<le> 500000)
                  \<and> (col ! i = CStr alto \<longleftrightarrow> 500000 < v \<and> v \<le> 1000000)
                  \<and> (col ! i = CStr premium \<longleftrightarrow> 1000000 < v)
                  \<and> col ! i = CStr (sql_faixa_valor (Some v)))"
    using t [THEN conjunct2, THEN conjunct1] by blast
  have l: "length col = 5"
    using l' by simp
  have c0: "col ! 0 = CStr baixo" using r' [THEN spec, of 0] by simp
  have c1: "col ! 1 = CStr medio" using r' [THEN spec, of 1] by simp
  have c2: "col ! 2 = CStr alto" using r' [THEN spec, of 2] by simp
  have c3: "col ! 3 = CStr premium" using r' [THEN spec, of 3] by simp
  have c4: "col ! 4 = CStr nao_informado" using r' [THEN spec, of 4] by simp
  have cc: "col = [CStr baixo, CStr medio, CStr alto, CStr premium, CStr nao_informado]"
    using list_of_length(1) [OF l] c0 c1 c2 c3 c4 by simp
  let ?rows' = "itbi_transformed (fst (create_derived_metrics_in_db ''2023'' banded_db))"
  have rows: "itbi_transformed banded_db =
        [transform_row example_raw_row,
         (transform_row example_raw_row)\<lparr>t_valor_avaliacao := Some 750000\<rparr>,
         (transform_row example_raw_row)\<lparr>t_valor_avaliacao := None\<rparr>,
         (transform_row example_raw_row)\<lparr>t_source_year := Some ''2024''\<rparr>]"
    by (simp add: banded_db_def)
  from t have ln: "length ?rows' = length (itbi_transformed banded_db)"
    and q: "\<forall>j < length (itbi_transformed banded_db).
         (t_source_year (itbi_transformed banded_db ! j) \<noteq> Some ''2023'' \<longrightarrow>
            ?rows' ! j = itbi_transformed banded_db ! j)
       \<and> (t_source_year (itbi_transformed banded_db ! j) = Some ''2023'' \<longrightarrow>
            t_faixa_valor (?rows' ! j)
              = Some (sql_faixa_valor (t_valor_avaliacao (itbi_transformed banded_db ! j))))"
    by blast+
  have f0: "t_faixa_valor (transform_row example_raw_row) = None"
    by (simp add: transform_row_def)
  have r0: "t_faixa_valor (?rows' ! 0) = Some baixo"
    using q [THEN spec, of 0] by (simp add: rows banded_rows sql_faixa_valor_bands)
  have r1: "t_faixa_valor (?rows' ! 1) = Some alto"
    using q [THEN spec, of 1] by (simp add: rows banded_rows sql_faixa_valor_bands)
  have r2: "t_faixa_valor (?rows' ! 2) = Some premium"
    using q [THEN spec, of 2] by (simp add: rows banded_rows sql_faixa_valor_bands)
  have r3: "t_faixa_valor (?rows' ! 3) = None"
    using q [THEN spec, of 3] by (simp add: rows banded_rows f0)
  have rr: "map t_faixa_valor ?rows' = [Some baixo, Some alto, Some premium, None]"
  proof -
    have n: "length (map t_faixa_valor ?rows') = 4"
      using ln by (simp add: rows)
    show ?thesis
      using list_of_length(2) [OF n] ln r0 r1 r2 r3 by (simp add: rows)
  qed
  from h1 c cc rr show ?thesis by simp
qed

subsection \<open>Value per built area\<close>

lemma floor_bounds: "of_int \<lfloor>y\<rfloor> \<le> (y::real) \<and> y < of_int \<lfloor>y\<rfloor> + 1"
  by linarith

lemma rint_close: "\<bar>of_int (rint y) - y\<bar> \<le> 1 / 2"
proof -
  have b: "of_int \<lfloor>y\<rfloor> \<le> y \<and> y < of_int \<lfloor>y\<rfloor> + 1"
    by (rule floor_bounds)
  show ?thesis
    unfolding rint_def Let_def using b by (auto simp: abs_le_iff)
qed

lemma sqlite_round2_close: "\<bar>sqlite_round2 x - x\<bar> \<le> 1 / 200"
proof (cases "x < 0")
  case True
  define m :: real where "m = of_int \<lfloor>- x * 100 + 1 / 2\<rfloor>"
  have b: "m \<le> - x * 100 + 1 / 2" "- x * 100 + 1 / 2 < m + 1"
    unfolding m_def by linarith+
  have e: "sqlite_round2 x = - (m / 100)"
    using True by (simp add: sqlite_round2_def m_def)
  show ?thesis unfolding e using b by linarith
next
  case False
  define m :: real where "m = of_int \<lfloor>x * 100 + 1 / 2\<rfloor>"
  have b: "m \<le> x * 100 + 1 / 2" "x * 100 + 1 / 2 < m + 1"
    unfolding m_def by linarith+
  have e: "sqlite_round2 x = m / 100"
    using False by (simp add: sqlite_round2_def m_def)
  show ?thesis unfolding e using b by linarith
qed

lemma scaled_error:
  fixes r v a e :: real
  assumes "0 < a" "\<bar>r - v / a\<bar> \<le> e"
  shows "\<bar>r * a - v\<bar> \<le> e * a"
proof -
  have "r * a - v = (r - v / a) * a"
    using assms(1) by (simp add: field_simps)
  then have "\<bar>r * a - v\<bar> = \<bar>r - v / a\<bar> * a"
    using assms(1) by (simp add: abs_mult)
  then show ?thesis
    using assms by (simp add: mult_right_mono)
qed

text \<open>
  For a positive built area both variants store the quotient rounded to the hundredth,
  so the stored value times the area is within \<open>area / 200\<close> of the value.
\<close>

lemma valor_por_m2_in_db:
  assumes "t_valor_avaliacao t = Some v" "t_area_construida t = Some a" "0 < a"
  shows "t_valor_por_m2 (update_valor_m2 t) = Some (sqlite_round2 (v / a))"
    and "\<bar>sqlite_round2 (v / a) * a - v\<bar> \<le> a / 200"
proof -
  show "t_valor_por_m2 (update_valor_m2 t) = Some (sqlite_round2 (v / a))"
    using assms
    by (simp add: update_valor_m2_def sql_true_def sql_gt_def sql_round2_def sql_div_def
        sql_nullif_real_def)
  show "\<bar>sqlite_round2 (v / a) * a - v\<bar> \<le> a / 200"
    using scaled_error [OF assms(3) sqlite_round2_close [of "v / a"]] by simp
qed

lemma valor_por_m2_in_process:
  assumes "0 < a"
  shows "map_sum id np_round2 (py_truediv (CFloat v) (CFloat a))
           = Inr (CFloat (of_int (rint (v / a * 100)) / 100))"
    and "\<bar>of_int (rint (v / a * 100)) / 100 * a - v\<bar> \<le> a / 200"
proof -
  show "map_sum id np_round2 (py_truediv (CFloat v) (CFloat a))
           = Inr (CFloat (of_int (rint (v / a * 100)) / 100))"
    using assms by (simp add: py_truediv_def)
  define i :: real where "i = of_int (rint (v / a * 100))"
  define q :: real where "q = v / a"
  have "\<bar>i - q * 100\<bar> \<le> 1 / 2"
    unfolding i_def q_def by (rule rint_close)
  then have "\<bar>i / 100 - q\<bar> \<le> 1 / 200"
    by linarith
  then have "\<bar>of_int (rint (v / a * 100)) / 100 - v / a\<bar> \<le> 1 / 200"
    unfolding i_def q_def .
  from scaled_error [OF assms this]
  show "\<bar>of_int (rint (v / a * 100)) / 100 * a - v\<bar> \<le> a / 200" by simp
qed

lemma valor_por_m2_null_in_db:
  "t_area_construida t = None \<or> (\<exists>a. t_area_construida t = Some a \<and> a \<le> 0)
     \<Longrightarrow> t_valor_por_m2 (update_valor_m2 t) = t_valor_por_m2 t"
  by (auto simp: update_valor_m2_def sql_true_def sql_gt_def)

text \<open>
  Claim C4, at a record with built area 0 (and at one with a negative built area). In
  process the division is not guarded: the quotient is an infinity (or the negative
  quotient), stored in \<^verbatim>\<open>valor_por_m2\<close>. In the database the \<^verbatim>\<open>WHERE\<close> condition
  \<^verbatim>\<open>area_construida > 0\<close> leaves \<^verbatim>\<open>valor_por_m2\<close> NULL for the same record.
\<close>

theorem valor_por_m2_zero_area:
  "get_col (add_valor_por_m2
      \<lparr>nrows = 2, cols = [(''valor_avaliacao'', [CFloat 100000, CFloat 100000]),
                          (''area_construida'', [CFloat 0, CFloat (- 50)])]\<rparr>) ''valor_por_m2''
     = Some [CInf True, CFloat (- 2000)]
   \<and> t_valor_por_m2 (update_valor_m2
        (t\<lparr>t_valor_avaliacao := Some 100000, t_area_construida := Some 0,
           t_valor_por_m2 := None\<rparr>)) = None
   \<and> t_valor_por_m2 (update_valor_m2
        (t\<lparr>t_valor_avaliacao := Some 100000, t_area_construida := Some (- 50),
           t_valor_por_m2 := None\<rparr>)) = None"
proof -
  have r: "rint (- 200000) = - 200000"
    by (simp add: rint_def)
  have a: "get_col (add_valor_por_m2
      \<lparr>nrows = 2, cols = [(''valor_avaliacao'', [CFloat 100000, CFloat 100000]),
                          (''area_construida'', [CFloat 0, CFloat (- 50)])]\<rparr>) ''valor_por_m2''
     = Some [CInf True, CFloat (- 2000)]"
    by (simp add: add_valor_por_m2_def col_or_raise_def get_col_def set_col_def map2_err_def
        py_truediv_def r)
  have b: "t_valor_por_m2 (update_valor_m2
        (t\<lparr>t_valor_avaliacao := Some 100000, t_area_construida := Some 0,
           t_valor_por_m2 := None\<rparr>)) = None"
    by (simp add: update_valor_m2_def sql_true_def sql_gt_def)
  have c: "t_valor_por_m2 (update_valor_m2
        (t\<lparr>t_valor_avaliacao := Some 100000, t_area_construida := Some (- 50),
           t_valor_por_m2 := None\<rparr>)) = None"
    by (simp add: update_valor_m2_def sql_true_def sql_gt_def)
  from a b c show ?thesis by blast
qed

subsection \<open>The in-database transform and the raw table\<close>

lemma transform_row_source_year: "t_source_year (transform_row r) = raw_source_year r"
  by (simp add: transform_row_def)

lemma transform_row_valor:
  "raw_valor_avaliacao r \<noteq> None \<Longrightarrow> t_valor_avaliacao (transform_row r) \<noteq> None"
  by (simp add: transform_row_def sql_coerce_real_def sql_cast_real_def sql_replace_def)

lemma filter_year_new:
  "filter (\<lambda>t. t_source_year t = Some year)
     (map transform_row (filter (transform_where year) rs))
   = map transform_row (filter (transform_where year) rs)"
  by (induction rs) (auto simp: transform_row_source_year transform_where_def)

lemma filter_other_new:
  "filter (\<lambda>t. t_source_year t \<noteq> Some year)
     (map transform_row (filter (transform_where year) rs)) = []"
  by (induction rs) (auto simp: transform_row_source_year transform_where_def)

lemma filter_year_kept:
  "filter (\<lambda>t. t_source_year t = Some year) (filter (\<lambda>t. t_source_year t \<noteq> Some year) ts) = []"
  by (induction ts) auto

text \<open>
  Claim C5, as stated: after the transform of 2023 on the example table the row whose
  assessed value is the text \<^verbatim>\<open>abc\<close> is in \<^verbatim>\<open>itbi_transformed\<close>, with the value 0.
\<close>

theorem positive_valor_counterexample:
  "\<not> list_all positive_valor
        (itbi_transformed (fst (transform_data_types_in_db ''2023'' example_db)))"
  by (simp add: transform_data_types_in_db_def example_db_def example_raw_row_def
      transform_where_def transform_row_def positive_valor_def sql_parse_defs Let_def)

text \<open>
  Claim C5, amended. The transform of a year leaves \<^verbatim>\<open>itbi_raw\<close> as it is (and so does
  the derivation of the metrics). Afterwards the rows of \<^verbatim>\<open>itbi_transformed\<close> for the
  year are exactly the transformed raw rows of the year whose assessed value is not NULL,
  not empty and not the text \<^verbatim>\<open>nan\<close>; each has a number as its assessed value; the
  rows of the other years are untouched; and a raw row with a NULL, empty or
  \<^verbatim>\<open>nan\<close> value is not selected while it stays in \<^verbatim>\<open>itbi_raw\<close>.
\<close>

theorem transform_keeps_raw:
  "itbi_raw (fst (transform_data_types_in_db year d)) = itbi_raw d
   \<and> itbi_raw (fst (create_derived_metrics_in_db year d)) = itbi_raw d
   \<and> filter (\<lambda>t. t_source_year t = Some year)
        (itbi_transformed (fst (transform_data_types_in_db year d)))
      = map transform_row (filter (transform_where year) (itbi_raw d))
   \<and> filter (\<lambda>t. t_source_year t \<noteq> Some year)
        (itbi_transformed (fst (transform_data_types_in_db year d)))
      = filter (\<lambda>t. t_source_year t \<noteq> Some year) (itbi_transformed d)
   \<and> (\<forall>t \<in> set (itbi_transformed (fst (transform_data_types_in_db year d))).
         t_source_year t = Some year \<longrightarrow> t_valor_avaliacao t \<noteq> None)
   \<and> (\<forall>r \<in> set (itbi_raw d).
         raw_valor_avaliacao r \<in> {None, Some [], Some ''nan''} \<longrightarrow>
           \<not> transform_where year r
           \<and> r \<in> set (itbi_raw (fst (transform_data_types_in_db year d))))"
proof -
  let ?d = "fst (transform_data_types_in_db year d)"
  have tr: "itbi_transformed ?d
              = filter (\<lambda>t. t_source_year t \<noteq> Some year) (itbi_transformed d)
                @ map transform_row (filter (transform_where year) (itbi_raw d))"
    by (simp add: transform_data_types_in_db_def Let_def)
  have a: "itbi_raw ?d = itbi_raw d"
    by (simp add: transform_data_types_in_db_def Let_def)
  have b: "itbi_raw (fst (create_derived_metrics_in_db year d)) = itbi_raw d"
    by (simp add: create_derived_metrics_in_db_def Let_def)
  have c: "filter (\<lambda>t. t_source_year t = Some year) (itbi_transformed ?d)
             = map transform_row (filter (transform_where year) (itbi_raw d))"
    by (simp add: tr filter_year_new filter_year_kept)
  have e: "filter (\<lambda>t. t_source_year t \<noteq> Some year) (itbi_transformed ?d)
             = filter (\<lambda>t. t_source_year t \<noteq> Some year) (itbi_transformed d)"
    by (simp add: tr filter_other_new)
  have f: "\<forall>t \<in> set (itbi_transformed ?d).
             t_source_year t = Some year \<longrightarrow> t_valor_avaliacao t \<noteq> None"
  proof (intro ballI impI)
    fix t
    assume "t \<in> set (itbi_transformed ?d)" and "t_source_year t = Some year"
    then have "t \<in> set (filter (\<lambda>t. t_source_year t = Some year) (itbi_transformed ?d))"
      by simp
    then obtain r where "t = transform_row r" and "transform_where year r"
      unfolding c by auto
    then show "t_valor_avaliacao t \<noteq> None"
      using transform_row_valor [of r] by (simp add: transform_where_def)
  qed
  have g: "\<forall>r \<in> set (itbi_raw d).
             raw_valor_avaliacao r \<in> {None, Some [], Some ''nan''} \<longrightarrow>
               \<not> transform_where year r \<and> r \<in> set (itbi_raw ?d)"
    by (auto simp: a transform_where_def)
  from a b c e f g show ?thesis by blast
qed

theorem transform_keeps_raw_witness:
  "itbi_raw (fst (transform_data_types_in_db ''2023'' example_db)) = itbi_raw example_db
   \<and> map t_valor_avaliacao
        (filter (\<lambda>t. t_source_year t = Some ''2023'')
           (itbi_transformed (fst (transform_data_types_in_db ''2023'' example_db))))
      = [Some 0]"
proof -
  have s: "map t_valor_avaliacao
             (map transform_row (filter (transform_where ''2023'') (itbi_raw example_db)))
           = [Some 0]"
    by (simp add: example_db_def example_raw_row_def transform_where_def transform_row_def
        sql_parse_defs)
  show ?thesis
    using transform_keeps_raw [of "''2023''" example_db] s by simp
qed

subsection \<open>Raw loading\<close>

lemma map_of_map_values:
  "map_of (map (\<lambda>(k, v). (k, f k v)) l) c = map_option (f c) (map_of l c)"
  by (induction l) auto

lemma get_col_astype_str:
  "get_col (astype_str_columns rt fr df) c =
     map_option (\<lambda>v. if c \<in> set metadata_columns then v else map (astype_str1 rt fr) v)
       (get_col df c)"
  by (simp add: get_col_def astype_str_columns_def map_of_map_values)

lemma columns_astype_str: "columns (astype_str_columns rt fr df) = columns df"
  by (simp add: columns_def astype_str_columns_def comp_def case_prod_unfold)

lemma nrows_astype_str: "nrows (astype_str_columns rt fr df) = nrows df"
  by (simp add: astype_str_columns_def)

lemma insert_rows_Some: "insert_rows tbl rs = Some t \<Longrightarrow> t = tbl @ rs"
proof (induction rs arbitrary: tbl)
  case Nil
  then show ?case by simp
next
  case (Cons r rs)
  from Cons.prems have "insert_rows (tbl @ [r]) rs = Some t"
    by (simp split: if_splits)
  from Cons.IH [OF this] show ?case by simp
qed

lemma kept_rows:
  "(if length (filter (\<lambda>r. raw_source_year r = Some year) rows) > 0
    then filter (\<lambda>r. raw_source_year r \<noteq> Some year) rows else rows)
   = filter (\<lambda>r. raw_source_year r \<noteq> Some year) rows"
  by (auto simp: filter_empty_conv filter_id_conv)

lemma load_raw_dataset_eq:
  "load_raw_dataset rt fr df year d =
     (if \<not> set (columns df) \<subseteq> set raw_table_columns then
        (d\<lparr>load_metadata := load_metadata d @ [(year, 0, ''error'')]\<rparr>, Inl OperationalError)
      else if variable_limit rt < nrows df * length (columns df) then
        (d\<lparr>load_metadata := load_metadata d @ [(year, 0, ''error'')]\<rparr>, Inl OperationalError)
      else
        (case insert_rows (filter (\<lambda>r. raw_source_year r \<noteq> Some year) (itbi_raw d))
                (frame_rows fr (astype_str_columns rt fr df)) of
           None \<Rightarrow>
             (d\<lparr>load_metadata := load_metadata d @ [(year, 0, ''error'')]\<rparr>, Inl IntegrityError)
         | Some tbl \<Rightarrow>
             (d\<lparr>itbi_raw := tbl,
                load_metadata := load_metadata d @ [(year, nrows df, ''success'')]\<rparr>,
              Inr (nrows df))))"
  unfolding load_raw_dataset_def Let_def kept_rows columns_astype_str nrows_astype_str
  by (rule refl)

lemma load_raw_dataset_ok:
  assumes "snd (load_raw_dataset rt fr df year d) = Inr n"
  shows "n = nrows df"
    and "set (columns df) \<subseteq> set raw_table_columns"
    and "insert_rows (filter (\<lambda>r. raw_source_year r \<noteq> Some year) (itbi_raw d))
           (frame_rows fr (astype_str_columns rt fr df))
         = Some (itbi_raw (fst (load_raw_dataset rt fr df year d)))"
    and "itbi_raw (fst (load_raw_dataset rt fr df year d))
         = filter (\<lambda>r. raw_source_year r \<noteq> Some year) (itbi_raw d)
           @ frame_rows fr (astype_str_columns rt fr df)"
    and "\<not> variable_limit rt < nrows df * length (columns df)"
proof -
  show c: "set (columns df) \<subseteq> set raw_table_columns"
    using assms by (auto simp: load_raw_dataset_eq split: if_splits)
  show v: "\<not> variable_limit rt < nrows df * length (columns df)"
    using assms c by (auto simp: load_raw_dataset_eq split: if_splits)
  obtain tbl where t: "insert_rows (filter (\<lambda>r. raw_source_year r \<noteq> Some year) (itbi_raw d))
           (frame_rows fr (astype_str_columns rt fr df)) = Some tbl"
    using assms c v by (auto simp: load_raw_dataset_eq split: option.splits)
  have r: "itbi_raw (fst (load_raw_dataset rt fr df year d)) = tbl"
    using c v t by (simp add: load_raw_dataset_eq)
  show "n = nrows df"
    using assms c v t by (simp add: load_raw_dataset_eq)
  show "insert_rows (filter (\<lambda>r. raw_source_year r \<noteq> Some year) (itbi_raw d))
           (frame_rows fr (astype_str_columns rt fr df))
         = Some (itbi_raw (fst (load_raw_dataset rt fr df year d)))"
    using t r by simp
  show "itbi_raw (fst (load_raw_dataset rt fr df year d))
         = filter (\<lambda>r. raw_source_year r \<noteq> Some year) (itbi_raw d)
           @ frame_rows fr (astype_str_columns rt fr df)"
    using insert_rows_Some [OF t] r by simp
qed

lemma load_raw_dataset_failure:
  "snd (load_raw_dataset rt fr df year d) = Inl e \<Longrightarrow>
     itbi_raw (fst (load_raw_dataset rt fr df year d)) = itbi_raw d"
  by (auto simp: load_raw_dataset_eq split: if_splits option.splits)

text \<open>A frame with more cells than the engine accepts variables is not loaded.\<close>

lemma load_raw_dataset_too_many_variables:
  "variable_limit rt < nrows df * length (columns df) \<Longrightarrow>
     snd (load_raw_dataset rt fr df year d) = Inl OperationalError
     \<and> itbi_raw (fst (load_raw_dataset rt fr df year d)) = itbi_raw d"
  by (simp add: load_raw_dataset_eq)

lemma tagged_rows:
  assumes "get_col df ''source_year'' = Some (replicate (nrows df) (CStr year))"
  shows "\<forall>r \<in> set (frame_rows fr (astype_str_columns rt fr df)). raw_source_year r = Some year"
  using assms
  by (auto simp: frame_rows_def frame_row_def cell_at_def get_col_astype_str nrows_astype_str
      metadata_columns_def)

lemma untagged_rows:
  "frame_rows fr (astype_str_columns pandas2 fr untagged_frame) =
     [\<lparr>raw_valor_avaliacao = Some ''100.000,50'', raw_bairro = Some ''Boa Viagem'',
       raw_tipo_imovel = None, raw_data_transacao = None,
       raw_logradouro = None, raw_numero = None, raw_complemento = None, raw_cep = None,
       raw_area_terreno = None, raw_area_construida = None, raw_ano_construcao = None,
       raw_fracao_ideal = None, raw_valores_financiados_sfh = None,
       raw_source_year = None, raw_extraction_timestamp = None,
       raw_pipeline_type = None\<rparr>]"
  unfolding frame_rows_def frame_row_def cell_at_def get_col_astype_str nrows_astype_str
  by (simp add: metadata_columns_def untagged_frame_def get_col_def astype_str1_def
      pd_isna_def)

lemma untagged_shape:
  "set (columns untagged_frame) \<subseteq> set raw_table_columns"
  "\<not> variable_limit pandas2 < nrows untagged_frame * length (columns untagged_frame)"
  by (simp_all add: untagged_frame_def columns_def raw_table_columns_def pandas2_def)

lemma untagged_first:
  "load_raw_dataset pandas2 fr untagged_frame ''2023'' empty_db =
     (empty_db\<lparr>itbi_raw := frame_rows fr (astype_str_columns pandas2 fr untagged_frame),
               load_metadata := [(''2023'', 1, ''success'')]\<rparr>, Inr 1)"
proof -
  have n: "nrows untagged_frame = 1"
    by (simp add: untagged_frame_def)
  have i: "insert_rows [] (frame_rows fr (astype_str_columns pandas2 fr untagged_frame))
             = Some (frame_rows fr (astype_str_columns pandas2 fr untagged_frame))"
    unfolding untagged_rows by (simp add: collide_def unique_key_def)
  show ?thesis
    unfolding load_raw_dataset_eq using untagged_shape by (simp add: empty_db_def i n)
qed

lemma untagged_second:
  "load_raw_dataset pandas2 fr untagged_frame ''2023''
     (empty_db\<lparr>itbi_raw := frame_rows fr (astype_str_columns pandas2 fr untagged_frame),
               load_metadata := [(''2023'', 1, ''success'')]\<rparr>) =
     (empty_db\<lparr>itbi_raw := frame_rows fr (astype_str_columns pandas2 fr untagged_frame)
                            @ frame_rows fr (astype_str_columns pandas2 fr untagged_frame),
               load_metadata := [(''2023'', 1, ''success''), (''2023'', 1, ''success'')]\<rparr>,
      Inr 1)"
proof -
  have n: "nrows untagged_frame = 1"
    by (simp add: untagged_frame_def)
  have i: "insert_rows
             (filter (\<lambda>r. raw_source_year r \<noteq> Some ''2023'')
                (frame_rows fr (astype_str_columns pandas2 fr untagged_frame)))
             (frame_rows fr (astype_str_columns pandas2 fr untagged_frame))
           = Some (frame_rows fr (astype_str_columns pandas2 fr untagged_frame)
                   @ frame_rows fr (astype_str_columns pandas2 fr untagged_frame))"
    unfolding untagged_rows by (simp add: collide_def unique_key_def)
  show ?thesis
    unfolding load_raw_dataset_eq using untagged_shape by (simp add: empty_db_def i n)
qed

text \<open>
  Claim C6, as stated: a frame that does not carry the year in \<^verbatim>\<open>source_year\<close> is
  loaded twice for 2023 into an empty table. Both loads succeed; the \<^verbatim>\<open>DELETE\<close> of the
  second load finds no row of 2023 and the unique key does not collide on NULL, so the
  one record of the frame is in the table twice.
\<close>

theorem load_untagged_counterexample:
  "nrows untagged_frame = 1
   \<and> snd (load_raw_dataset pandas2 no_float_repr untagged_frame ''2023'' empty_db) = Inr 1
   \<and> snd (load_raw_dataset pandas2 no_float_repr untagged_frame ''2023''
        (fst (load_raw_dataset pandas2 no_float_repr untagged_frame ''2023'' empty_db))) = Inr 1
   \<and> itbi_raw (fst (load_raw_dataset pandas2 no_float_repr untagged_frame ''2023''
        (fst (load_raw_dataset pandas2 no_float_repr untagged_frame ''2023'' empty_db))))
      = frame_rows no_float_repr (astype_str_columns pandas2 no_float_repr untagged_frame)
        @ frame_rows no_float_repr (astype_str_columns pandas2 no_float_repr untagged_frame)"
proof -
  have n: "nrows untagged_frame = 1"
    by (simp add: untagged_frame_def)
  show ?thesis
    unfolding untagged_first fst_conv snd_conv untagged_second
    by (simp add: n)
qed

text \<open>
  Claim C6, amended. Take a frame whose rows carry the year in \<^verbatim>\<open>source_year\<close>, as the
  extractor tags them, and a load of it that succeeds. Loading the same frame for the
  same year again succeeds with the same count and leaves \<^verbatim>\<open>itbi_raw\<close> as the first
  load left it: the rows of the year are exactly the rows of the frame, once each, and
  the rows of the other years are those that were in the table before.
\<close>

theorem load_raw_dataset_idempotent:
  assumes "snd (load_raw_dataset rt fr df year d) = Inr n"
    and "get_col df ''source_year'' = Some (replicate (nrows df) (CStr year))"
  shows "snd (load_raw_dataset rt fr df year (fst (load_raw_dataset rt fr df year d))) = Inr n
   \<and> itbi_raw (fst (load_raw_dataset rt fr df year (fst (load_raw_dataset rt fr df year d))))
      = itbi_raw (fst (load_raw_dataset rt fr df year d))
   \<and> filter (\<lambda>r. raw_source_year r = Some year)
        (itbi_raw (fst (load_raw_dataset rt fr df year (fst (load_raw_dataset rt fr df year d)))))
      = frame_rows fr (astype_str_columns rt fr df)
   \<and> length (filter (\<lambda>r. raw_source_year r = Some year)
        (itbi_raw (fst (load_raw_dataset rt fr df year (fst (load_raw_dataset rt fr df year d))))))
      = nrows df
   \<and> filter (\<lambda>r. raw_source_year r \<noteq> Some year)
        (itbi_raw (fst (load_raw_dataset rt fr df year (fst (load_raw_dataset rt fr df year d)))))
      = filter (\<lambda>r. raw_source_year r \<noteq> Some year) (itbi_raw d)"
proof -
  let ?d1 = "fst (load_raw_dataset rt fr df year d)"
  let ?kept = "filter (\<lambda>r. raw_source_year r \<noteq> Some year) (itbi_raw d)"
  let ?new = "frame_rows fr (astype_str_columns rt fr df)"
  note ok = load_raw_dataset_ok [OF assms(1)]
  have tag: "\<forall>r \<in> set ?new. raw_source_year r = Some year"
    using assms(2) by (rule tagged_rows)
  have new_other: "filter (\<lambda>r. raw_source_year r \<noteq> Some year) ?new = []"
    using tag by (simp add: filter_empty_conv)
  have new_year: "filter (\<lambda>r. raw_source_year r = Some year) ?new = ?new"
    using tag by (simp add: filter_id_conv)
  have kept_year: "filter (\<lambda>r. raw_source_year r = Some year) ?kept = []"
    by (simp add: filter_empty_conv)
  have raw1: "itbi_raw ?d1 = ?kept @ ?new"
    by (rule ok(4))
  have kept1: "filter (\<lambda>r. raw_source_year r \<noteq> Some year) (itbi_raw ?d1) = ?kept"
    by (simp add: raw1 new_other)
  have ins: "insert_rows (filter (\<lambda>r. raw_source_year r \<noteq> Some year) (itbi_raw ?d1)) ?new
               = Some (itbi_raw ?d1)"
    unfolding kept1 by (rule ok(3))
  have second: "load_raw_dataset rt fr df year ?d1 =
       (?d1\<lparr>itbi_raw := itbi_raw ?d1,
            load_metadata := load_metadata ?d1 @ [(year, nrows df, ''success'')]\<rparr>,
        Inr (nrows df))"
    using ok(2) ok(5) ins by (simp add: load_raw_dataset_eq [of rt fr df year ?d1])
  have a: "snd (load_raw_dataset rt fr df year ?d1) = Inr n"
    by (simp add: second ok(1))
  have b: "itbi_raw (fst (load_raw_dataset rt fr df year ?d1)) = itbi_raw ?d1"
    by (simp add: second)
  have c: "filter (\<lambda>r. raw_source_year r = Some year)
             (itbi_raw (fst (load_raw_dataset rt fr df year ?d1))) = ?new"
    by (simp add: b raw1 new_year kept_year)
  have e: "length (filter (\<lambda>r. raw_source_year r = Some year)
             (itbi_raw (fst (load_raw_dataset rt fr df year ?d1)))) = nrows df"
    unfolding c by (simp add: frame_rows_def nrows_astype_str)
  have f: "filter (\<lambda>r. raw_source_year r \<noteq> Some year)
             (itbi_raw (fst (load_raw_dataset rt fr df year ?d1))) = ?kept"
    by (simp add: b kept1)
  from a b c e f show ?thesis by blast
qed

lemma example_raw_rows:
  "frame_rows fr (astype_str_columns rt fr example_raw_frame) =
     [\<lparr>raw_valor_avaliacao = Some ''100.000,50'', raw_bairro = Some ''Boa Viagem'',
       raw_tipo_imovel = Some ''Apartamento'', raw_data_transacao = Some ''2023-01-15'',
       raw_logradouro = None, raw_numero = None, raw_complemento = None, raw_cep = None,
       raw_area_terreno = None, raw_area_construida = None, raw_ano_construcao = None,
       raw_fracao_ideal = None, raw_valores_financiados_sfh = None,
       raw_source_year = Some ''2023'', raw_extraction_timestamp = None,
       raw_pipeline_type = Some ''ELT''\<rparr>,
      \<lparr>raw_valor_avaliacao = (if str_keeps_na rt then None else Some ''nan''),
       raw_bairro = Some ''Casa Forte'',
       raw_tipo_imovel = Some ''Casa'', raw_data_transacao = Some ''2023-02-20'',
       raw_logradouro = None, raw_numero = None, raw_complemento = None, raw_cep = None,
       raw_area_terreno = None, raw_area_construida = None, raw_ano_construcao = None,
       raw_fracao_ideal = None, raw_valores_financiados_sfh = None,
       raw_source_year = Some ''2023'', raw_extraction_timestamp = None,
       raw_pipeline_type = Some ''ELT''\<rparr>]"
  unfolding frame_rows_def frame_row_def cell_at_def get_col_astype_str nrows_astype_str
  by (simp add: metadata_columns_def example_raw_frame_def get_col_def upt_rec astype_str1_def
      pd_isna_def)

lemma example_load:
  assumes "variable_limit rt = 32766"
  shows "load_raw_dataset rt fr example_raw_frame ''2023'' empty_db =
     (empty_db\<lparr>itbi_raw := frame_rows fr (astype_str_columns rt fr example_raw_frame),
               load_metadata := [(''2023'', 2, ''success'')]\<rparr>, Inr 2)"
proof -
  have c: "set (columns example_raw_frame) \<subseteq> set raw_table_columns"
    by (simp add: example_raw_frame_def columns_def raw_table_columns_def)
  have v: "\<not> variable_limit rt < nrows example_raw_frame * length (columns example_raw_frame)"
    using assms by (simp add: example_raw_frame_def columns_def)
  have n: "nrows example_raw_frame = 2"
    by (simp add: example_raw_frame_def)
  have i: "insert_rows [] (frame_rows fr (astype_str_columns rt fr example_raw_frame))
             = Some (frame_rows fr (astype_str_columns rt fr example_raw_frame))"
    unfolding example_raw_rows by (simp add: collide_def unique_key_def)
  show ?thesis
    unfolding load_raw_dataset_eq using c v by (simp add: empty_db_def i n)
qed

lemma example_load_ok:
  "snd (load_raw_dataset pandas2 fr example_raw_frame ''2023'' empty_db) = Inr 2"
  by (simp add: example_load pandas2_def)

theorem load_raw_dataset_idempotent_witness:
  "snd (load_raw_dataset pandas2 no_float_repr example_raw_frame ''2023'' empty_db) = Inr 2
   \<and> get_col example_raw_frame ''source_year''
       = Some (replicate (nrows example_raw_frame) (CStr ''2023''))
   \<and> snd (load_raw_dataset pandas2 no_float_repr example_raw_frame ''2023''
        (fst (load_raw_dataset pandas2 no_float_repr example_raw_frame ''2023'' empty_db)))
      = Inr 2
   \<and> length (filter (\<lambda>r. raw_source_year r = Some ''2023'')
        (itbi_raw (fst (load_raw_dataset pandas2 no_float_repr example_raw_frame ''2023''
           (fst (load_raw_dataset pandas2 no_float_repr example_raw_frame ''2023''
                   empty_db)))))) = 2"
proof -
  have h1: "snd (load_raw_dataset pandas2 no_float_repr example_raw_frame ''2023'' empty_db)
              = Inr 2"
    by (rule example_load_ok)
  have h2: "get_col example_raw_frame ''source_year''
       = Some (replicate (nrows example_raw_frame) (CStr ''2023''))"
    by (simp add: example_raw_frame_def get_col_def numeral_2_eq_2)
  have n: "nrows example_raw_frame = 2"
    by (simp add: example_raw_frame_def)
  note t = load_raw_dataset_idempotent [OF h1 h2]
  have a: "snd (load_raw_dataset pandas2 no_float_repr example_raw_frame ''2023''
        (fst (load_raw_dataset pandas2 no_float_repr example_raw_frame ''2023'' empty_db)))
      = Inr 2"
    using t by (rule conjunct1)
  have b: "length (filter (\<lambda>r. raw_source_year r = Some ''2023'')
        (itbi_raw (fst (load_raw_dataset pandas2 no_float_repr example_raw_frame ''2023''
           (fst (load_raw_dataset pandas2 no_float_repr example_raw_frame ''2023''
                   empty_db)))))) = 2"
    using t [THEN conjunct2, THEN conjunct2, THEN conjunct2, THEN conjunct1]
    unfolding n .
  from h1 h2 a b show ?thesis by blast
qed




subsection \<open>Consolidation\<close>

lemma set_union_columns_acc:
  "set (foldl (\<lambda>acc f. acc @ filter (\<lambda>c. c \<notin> set acc) (columns f)) acc fs)
     = set acc \<union> (\<Union>f \<in> set fs. set (columns f))"
  by (induction fs arbitrary: acc) auto

lemma set_union_columns: "set (union_columns fs) = (\<Union>f \<in> set fs. set (columns f))"
  by (simp add: union_columns_def set_union_columns_acc)

lemma map_of_map_key: "c \<in> set cs \<Longrightarrow> map_of (map (\<lambda>c. (c, g c)) cs) c = Some (g c)"
  by (induction cs) auto

lemma wf_frame_col: "wf_frame f \<Longrightarrow> get_col f c = Some xs \<Longrightarrow> length xs = nrows f"
  by (auto simp: wf_frame_def get_col_def list_all_iff dest!: map_of_SomeD)

lemma length_piece: "wf_frame f \<Longrightarrow> length (piece c f) = nrows f"
  by (auto simp: piece_def wf_frame_col split: option.splits)

lemma length_concat_pieces:
  "\<forall>f \<in> set fs. wf_frame f \<Longrightarrow> length (concat (map (piece c) fs)) = sum_list (map nrows fs)"
  by (induction fs) (auto simp: length_piece)

lemma length_promote: "length (promote xs) = length xs"
  by (simp add: promote_def)

lemma nth_promote: "n < length xs \<Longrightarrow> same_value (xs ! n) (promote xs ! n)"
  by (simp add: promote_def same_value_def)

lemma nth_promote_nan: "n < length xs \<Longrightarrow> xs ! n = CNaN \<Longrightarrow> promote xs ! n = CNaN"
  by (simp add: promote_def)

lemma nth_concat_pieces:
  "k < length fs \<Longrightarrow> \<forall>f \<in> set fs. wf_frame f \<Longrightarrow> j < nrows (fs ! k) \<Longrightarrow>
     concat (map (piece c) fs) ! (row_offset fs k + j) = piece c (fs ! k) ! j"
proof (induction fs arbitrary: k)
  case Nil
  then show ?case by simp
next
  case (Cons f fs)
  show ?case
  proof (cases k)
    case 0
    then show ?thesis
      using Cons.prems by (simp add: row_offset_def nth_append length_piece)
  next
    case (Suc k')
    have "concat (map (piece c) fs) ! (row_offset fs k' + j) = piece c (fs ! k') ! j"
      using Cons.prems Suc by (intro Cons.IH) auto
    then show ?thesis
      using Cons.prems Suc by (simp add: row_offset_def nth_append length_piece)
  qed
qed

lemma row_offset_bound:
  "k < length fs \<Longrightarrow> j < nrows (fs ! k) \<Longrightarrow> row_offset fs k + j < sum_list (map nrows fs)"
proof (induction fs arbitrary: k)
  case Nil
  then show ?case by simp
next
  case (Cons f fs)
  show ?case
  proof (cases k)
    case 0
    then show ?thesis using Cons.prems by (simp add: row_offset_def)
  next
    case (Suc k')
    have "row_offset fs k' + j < sum_list (map nrows fs)"
      using Cons.prems Suc by (intro Cons.IH) auto
    then show ?thesis using Suc by (simp add: row_offset_def)
  qed
qed

text \<open>
  Claim C7. For a non-empty collection of well-formed per-year frames the consolidation
  returns a frame. Its row count is the sum of the row counts, its column set is the
  union of the column sets, and every column has one cell per row. The rows of the
  \<open>k\<close>-th frame are the rows from \<open>row_offset k\<close> on, in order: in a column the frame
  has, row \<open>j\<close> holds the cell of the frame (an integer possibly as the float of the
  same value), and in a column the frame lacks it holds a null.
\<close>

theorem consolidate_datasets_rows_columns:
  assumes "ds \<noteq> []" and "\<forall>f \<in> set (map snd ds). wf_frame f"
  shows "\<exists>out. consolidate_datasets ds = Inr out
     \<and> nrows out = sum_list (map nrows (map snd ds))
     \<and> set (columns out) = (\<Union>f \<in> set (map snd ds). set (columns f))
     \<and> (\<forall>c \<in> set (columns out). \<exists>col. get_col out c = Some col \<and> length col = nrows out
          \<and> (\<forall>k < length ds. \<forall>j < nrows (snd (ds ! k)).
               (case get_col (snd (ds ! k)) c of
                  None \<Rightarrow> col ! (row_offset (map snd ds) k + j) = CNaN
                | Some xs \<Rightarrow> same_value (xs ! j) (col ! (row_offset (map snd ds) k + j)))))"
proof -
  define fs where "fs = map snd ds"
  define out where "out = \<lparr>nrows = sum_list (map nrows fs),
      cols = map (\<lambda>c. (c, promote (concat (map (piece c) fs)))) (union_columns fs)\<rparr>"
  have ne: "fs \<noteq> []" using assms(1) by (simp add: fs_def)
  have wf: "\<forall>f \<in> set fs. wf_frame f" using assms(2) by (simp add: fs_def)
  have r: "consolidate_datasets ds = Inr out"
    using ne by (simp add: consolidate_datasets_def concat_frames_def out_def fs_def)
  have n: "nrows out = sum_list (map nrows fs)"
    by (simp add: out_def)
  have cs: "columns out = union_columns fs"
    by (simp add: out_def columns_def comp_def)
  have u: "set (columns out) = (\<Union>f \<in> set fs. set (columns f))"
    by (simp add: cs set_union_columns)
  have cols: "\<exists>col. get_col out c = Some col \<and> length col = nrows out
          \<and> (\<forall>k < length ds. \<forall>j < nrows (snd (ds ! k)).
               (case get_col (snd (ds ! k)) c of
                  None \<Rightarrow> col ! (row_offset fs k + j) = CNaN
                | Some xs \<Rightarrow> same_value (xs ! j) (col ! (row_offset fs k + j))))"
    if c: "c \<in> set (columns out)" for c
  proof -
    let ?raw = "concat (map (piece c) fs)"
    let ?col = "promote ?raw"
    have g: "get_col out c = Some ?col"
      using c unfolding cs by (simp add: get_col_def out_def map_of_map_key)
    have lr: "length ?raw = sum_list (map nrows fs)"
      using wf by (rule length_concat_pieces)
    have l: "length ?col = nrows out"
      by (simp add: length_promote lr n)
    have rows: "case get_col (snd (ds ! k)) c of
                  None \<Rightarrow> ?col ! (row_offset fs k + j) = CNaN
                | Some xs \<Rightarrow> same_value (xs ! j) (?col ! (row_offset fs k + j))"
      if k: "k < length ds" and j: "j < nrows (snd (ds ! k))" for k j
    proof -
      have fk: "fs ! k = snd (ds ! k)" using k by (simp add: fs_def)
      have kl: "k < length fs" using k by (simp add: fs_def)
      have jl: "j < nrows (fs ! k)" using j fk by simp
      have b: "row_offset fs k + j < length ?raw"
        unfolding lr using kl jl by (rule row_offset_bound)
      have e: "?raw ! (row_offset fs k + j) = piece c (fs ! k) ! j"
        using kl wf jl by (rule nth_concat_pieces)
      show ?thesis
      proof (cases "get_col (snd (ds ! k)) c")
        case None
        then have "?raw ! (row_offset fs k + j) = CNaN"
          using e fk j by (simp add: piece_def)
        then have "?col ! (row_offset fs k + j) = CNaN"
          using b by (intro nth_promote_nan)
        then show ?thesis using None by simp
      next
        case (Some xs)
        then have "?raw ! (row_offset fs k + j) = xs ! j"
          using e fk by (simp add: piece_def)
        then have "same_value (xs ! j) (?col ! (row_offset fs k + j))"
          using nth_promote [OF b] by simp
        then show ?thesis using Some by simp
      qed
    qed
    from g l rows show ?thesis by blast
  qed
  show ?thesis
    unfolding fs_def [symmetric]
    using r n u cols by blast
qed

theorem consolidate_datasets_rows_columns_witness:
  "[(''2023'', frames_2023), (''2024'', frames_2024)] \<noteq> []
   \<and> wf_frame frames_2023 \<and> wf_frame frames_2024
   \<and> (case consolidate_datasets [(''2023'', frames_2023), (''2024'', frames_2024)] of
        Inl e \<Rightarrow> False
      | Inr out \<Rightarrow> nrows out = 3
          \<and> set (columns out) = {''bairro'', ''ano_construcao'', ''cep''})"
proof -
  have w1: "wf_frame frames_2023" by (simp add: wf_frame_def frames_2023_def)
  have w2: "wf_frame frames_2024" by (simp add: wf_frame_def frames_2024_def)
  have h: "\<forall>f \<in> set (map snd [(''2023'', frames_2023), (''2024'', frames_2024)]). wf_frame f"
    using w1 w2 by simp
  have ne: "[(''2023'', frames_2023), (''2024'', frames_2024)] \<noteq> []" by simp
  obtain out where
    o: "consolidate_datasets [(''2023'', frames_2023), (''2024'', frames_2024)] = Inr out"
    and n: "nrows out = sum_list (map nrows (map snd [(''2023'', frames_2023), (''2024'', frames_2024)]))"
    and c: "set (columns out)
              = (\<Union>f \<in> set (map snd [(''2023'', frames_2023), (''2024'', frames_2024)]).
                   set (columns f))"
    using consolidate_datasets_rows_columns [OF ne h] by blast
  have n3: "nrows out = 3"
    using n by (simp add: frames_2023_def frames_2024_def)
  have c3: "set (columns out) = {''bairro'', ''ano_construcao'', ''cep''}"
    using c by (auto simp: frames_2023_def frames_2024_def columns_def)
  show ?thesis
    using w1 w2 o n3 c3 by simp
qed

subsection \<open>Extraction\<close>

text \<open>The three iterations of each loop, in terms of the body of the \<^verbatim>\<open>try\<close> block.\<close>

lemma extraction_by_step:
  "map fst (fst (extract_itbi_data read_csv clock))
     = map fst (filter (\<lambda>yu. \<not> isl (extract_one read_csv clock yu)) datasets_urls)
   \<and> (\<forall>yu \<in> set datasets_urls.
         map_of (fst (extract_itbi_data read_csv clock)) (fst yu)
           = (case extract_one read_csv clock yu of Inr df \<Rightarrow> Some df | Inl e \<Rightarrow> None))
   \<and> snd (extract_itbi_data read_csv clock)
     = map (\<lambda>yu. case extract_one read_csv clock yu of
                    Inr df \<Rightarrow> (''extract'', fst yu, nrows df, None)
                  | Inl e \<Rightarrow> (''extract'', fst yu, 0, Some e)) datasets_urls
   \<and> map fst (fst (extract_itbi_data_elt read_csv clock))
     = map fst (filter (\<lambda>yu. \<not> isl (extract_one_elt read_csv clock yu)) datasets_urls)
   \<and> (\<forall>yu \<in> set datasets_urls.
         map_of (fst (extract_itbi_data_elt read_csv clock)) (fst yu)
           = (case extract_one_elt read_csv clock yu of Inr df \<Rightarrow> Some df | Inl e \<Rightarrow> None))
   \<and> snd (extract_itbi_data_elt read_csv clock)
     = map fst (filter (\<lambda>yu. isl (extract_one_elt read_csv clock yu)) datasets_urls)"
proof -
  obtain u1 u2 u3 where us: "datasets_urls = [(''2023'', u1), (''2024'', u2), (''2025'', u3)]"
    by (simp add: datasets_urls_def)
  have etl: "map fst (fst (extract_itbi_data read_csv clock))
     = map fst (filter (\<lambda>yu. \<not> isl (extract_one read_csv clock yu)) datasets_urls)
   \<and> (\<forall>yu \<in> set datasets_urls.
         map_of (fst (extract_itbi_data read_csv clock)) (fst yu)
           = (case extract_one read_csv clock yu of Inr df \<Rightarrow> Some df | Inl e \<Rightarrow> None))
   \<and> snd (extract_itbi_data read_csv clock)
     = map (\<lambda>yu. case extract_one read_csv clock yu of
                    Inr df \<Rightarrow> (''extract'', fst yu, nrows df, None)
                  | Inl e \<Rightarrow> (''extract'', fst yu, 0, Some e)) datasets_urls"
    unfolding extract_itbi_data_def us
    by (cases "extract_one read_csv clock (''2023'', u1)";
        cases "extract_one read_csv clock (''2024'', u2)";
        cases "extract_one read_csv clock (''2025'', u3)")
       (simp_all add: extract_step_def)
  have elt: "map fst (fst (extract_itbi_data_elt read_csv clock))
     = map fst (filter (\<lambda>yu. \<not> isl (extract_one_elt read_csv clock yu)) datasets_urls)
   \<and> (\<forall>yu \<in> set datasets_urls.
         map_of (fst (extract_itbi_data_elt read_csv clock)) (fst yu)
           = (case extract_one_elt read_csv clock yu of Inr df \<Rightarrow> Some df | Inl e \<Rightarrow> None))
   \<and> snd (extract_itbi_data_elt read_csv clock)
     = map fst (filter (\<lambda>yu. isl (extract_one_elt read_csv clock yu)) datasets_urls)"
    unfolding extract_itbi_data_elt_def us
    by (cases "extract_one_elt read_csv clock (''2023'', u1)";
        cases "extract_one_elt read_csv clock (''2024'', u2)";
        cases "extract_one_elt read_csv clock (''2025'', u3)")
       (simp_all add: extract_step_elt_def)
  from etl elt show ?thesis by blast
qed

lemma assign_not_Nil: "assign c v l \<noteq> []"
  by (cases l) (auto split: if_splits)

lemma df_empty_set_scalar: "df_empty (set_scalar df c v) = (nrows df = 0)"
  by (simp add: df_empty_def set_scalar_def set_col_def assign_not_Nil)

lemma nrows_set_scalar: "nrows (set_scalar df c v) = nrows df"
  by (simp add: set_scalar_def set_col_def)

lemma extract_one_read:
  "extract_one read_csv clock (year, url) =
     (case read_csv url of
        Inl e \<Rightarrow> Inl e
      | Inr df0 \<Rightarrow>
          if nrows df0 = 0
             \<or> length (columns (set_scalar (set_scalar (set_scalar df0
                   ''source_year'' (CStr year)) ''extraction_date'' (clock year))
                   ''source_url'' (CStr url))) < 20
          then Inl ValueError
          else Inr (set_scalar (set_scalar (set_scalar df0
                   ''source_year'' (CStr year)) ''extraction_date'' (clock year))
                   ''source_url'' (CStr url)))"
  by (simp add: extract_one_def Let_def df_empty_set_scalar nrows_set_scalar
      split: sum.splits)

lemma extract_one_elt_read:
  "extract_one_elt read_csv clock (year, url) =
     (case read_csv url of
        Inl e \<Rightarrow> Inl e
      | Inr df0 \<Rightarrow>
          if nrows df0 = 0 then Inl ValueError
          else Inr (set_scalar (set_scalar (set_scalar df0
                   ''source_year'' (CStr year)) ''extraction_timestamp'' (clock year))
                   ''pipeline_type'' (CStr ''ELT'')))"
  by (simp add: extract_one_elt_def Let_def df_empty_set_scalar nrows_set_scalar
      split: sum.splits)

lemma extraction_per_year:
  assumes "(year, url) \<in> set datasets_urls"
  shows "map_of (fst (extract_itbi_data read_csv clock)) year
           = (case extract_one read_csv clock (year, url) of
                Inr df \<Rightarrow> Some df | Inl e \<Rightarrow> None)"
    and "(case extract_one read_csv clock (year, url) of
            Inr df \<Rightarrow> (''extract'', year, nrows df, None)
          | Inl e \<Rightarrow> (''extract'', year, 0, Some e))
         \<in> set (snd (extract_itbi_data read_csv clock))"
    and "map_of (fst (extract_itbi_data_elt read_csv clock)) year
           = (case extract_one_elt read_csv clock (year, url) of
                Inr df \<Rightarrow> Some df | Inl e \<Rightarrow> None)"
    and "(year \<in> set (snd (extract_itbi_data_elt read_csv clock)))
           = isl (extract_one_elt read_csv clock (year, url))"
proof -
  note h = extraction_by_step [of read_csv clock]
  from h assms show "map_of (fst (extract_itbi_data read_csv clock)) year
           = (case extract_one read_csv clock (year, url) of
                Inr df \<Rightarrow> Some df | Inl e \<Rightarrow> None)"
    by fastforce
  from h have l: "snd (extract_itbi_data read_csv clock)
     = map (\<lambda>yu. case extract_one read_csv clock yu of
                    Inr df \<Rightarrow> (''extract'', fst yu, nrows df, None)
                  | Inl e \<Rightarrow> (''extract'', fst yu, 0, Some e)) datasets_urls"
    by blast
  show "(case extract_one read_csv clock (year, url) of
            Inr df \<Rightarrow> (''extract'', year, nrows df, None)
          | Inl e \<Rightarrow> (''extract'', year, 0, Some e))
         \<in> set (snd (extract_itbi_data read_csv clock))"
    unfolding l using imageI [OF assms, of "\<lambda>yu. case extract_one read_csv clock yu of
                    Inr df \<Rightarrow> (''extract'', fst yu, nrows df, None)
                  | Inl e \<Rightarrow> (''extract'', fst yu, 0, Some e)"]
    by (simp add: image_iff split: sum.splits)
  from h assms show "map_of (fst (extract_itbi_data_elt read_csv clock)) year
           = (case extract_one_elt read_csv clock (year, url) of
                Inr df \<Rightarrow> Some df | Inl e \<Rightarrow> None)"
    by fastforce
  from h have p: "snd (extract_itbi_data_elt read_csv clock)
     = map fst (filter (\<lambda>yu. isl (extract_one_elt read_csv clock yu)) datasets_urls)"
    by blast
  obtain u1 u2 u3 where us: "datasets_urls = [(''2023'', u1), (''2024'', u2), (''2025'', u3)]"
    by (simp add: datasets_urls_def)
  show "(year \<in> set (snd (extract_itbi_data_elt read_csv clock)))
           = isl (extract_one_elt read_csv clock (year, url))"
    unfolding p using assms unfolding us by auto
qed

text \<open>
  Claim C8. Take a year of the source list and its address. When \<^verbatim>\<open>read_csv\<close> raises
  for the address (no connection, a file that does not parse), neither extractor stores
  an entry for the year and the failure is recorded: the ETL extractor appends the error
  entry of the year to the operation log, the ELT extractor prints the error line of the
  year. When \<^verbatim>\<open>read_csv\<close> returns a frame, the entry of the year is that frame with
  the three metadata columns, unless the validation rejects it (no rows; in the ETL
  extractor also fewer than 20 columns), which is recorded as a failure in the same way.
  The outcome for a year depends on the read of that year only, so a failure never stops
  the extraction of another year. Every year has one entry in the operation log, and the
  keys of each dictionary are the years with an entry, in the order of the source list.
\<close>

theorem extraction_skips_failed_years:
  assumes "(year, url) \<in> set datasets_urls"
  shows "(\<forall>e. read_csv url = Inl e \<longrightarrow>
            map_of (fst (extract_itbi_data read_csv clock)) year = None
          \<and> (''extract'', year, 0, Some e) \<in> set (snd (extract_itbi_data read_csv clock))
          \<and> map_of (fst (extract_itbi_data_elt read_csv clock)) year = None
          \<and> year \<in> set (snd (extract_itbi_data_elt read_csv clock)))
   \<and> (\<forall>df0. read_csv url = Inr df0 \<longrightarrow>
            map_of (fst (extract_itbi_data read_csv clock)) year
              = (if nrows df0 = 0
                    \<or> length (columns (set_scalar (set_scalar (set_scalar df0
                          ''source_year'' (CStr year)) ''extraction_date'' (clock year))
                          ''source_url'' (CStr url))) < 20
                 then None
                 else Some (set_scalar (set_scalar (set_scalar df0
                          ''source_year'' (CStr year)) ''extraction_date'' (clock year))
                          ''source_url'' (CStr url)))
          \<and> (if nrows df0 = 0
                    \<or> length (columns (set_scalar (set_scalar (set_scalar df0
                          ''source_year'' (CStr year)) ''extraction_date'' (clock year))
                          ''source_url'' (CStr url))) < 20
              then (''extract'', year, 0, Some ValueError)
              else (''extract'', year, nrows df0, None))
               \<in> set (snd (extract_itbi_data read_csv clock))
          \<and> map_of (fst (extract_itbi_data_elt read_csv clock)) year
              = (if nrows df0 = 0 then None
                 else Some (set_scalar (set_scalar (set_scalar df0
                          ''source_year'' (CStr year)) ''extraction_timestamp'' (clock year))
                          ''pipeline_type'' (CStr ''ELT'')))
          \<and> (year \<in> set (snd (extract_itbi_data_elt read_csv clock))) = (nrows df0 = 0))
   \<and> map (\<lambda>entry. fst (snd entry)) (snd (extract_itbi_data read_csv clock))
       = map fst datasets_urls
   \<and> map fst (fst (extract_itbi_data read_csv clock))
       = filter (\<lambda>y. map_of (fst (extract_itbi_data read_csv clock)) y \<noteq> None)
           (map fst datasets_urls)
   \<and> map fst (fst (extract_itbi_data_elt read_csv clock))
       = filter (\<lambda>y. map_of (fst (extract_itbi_data_elt read_csv clock)) y \<noteq> None)
           (map fst datasets_urls)"
proof -
  note p = extraction_per_year [OF assms, of read_csv clock]
  have a: "\<forall>e. read_csv url = Inl e \<longrightarrow>
            map_of (fst (extract_itbi_data read_csv clock)) year = None
          \<and> (''extract'', year, 0, Some e) \<in> set (snd (extract_itbi_data read_csv clock))
          \<and> map_of (fst (extract_itbi_data_elt read_csv clock)) year = None
          \<and> year \<in> set (snd (extract_itbi_data_elt read_csv clock))"
  proof (intro allI impI)
    fix e assume r: "read_csv url = Inl e"
    have 1: "extract_one read_csv clock (year, url) = Inl e"
      by (simp add: extract_one_read r)
    have 2: "extract_one_elt read_csv clock (year, url) = Inl e"
      by (simp add: extract_one_elt_read r)
    from p show "map_of (fst (extract_itbi_data read_csv clock)) year = None
          \<and> (''extract'', year, 0, Some e) \<in> set (snd (extract_itbi_data read_csv clock))
          \<and> map_of (fst (extract_itbi_data_elt read_csv clock)) year = None
          \<and> year \<in> set (snd (extract_itbi_data_elt read_csv clock))"
      unfolding 1 2 by simp
  qed
  have b: "\<forall>df0. read_csv url = Inr df0 \<longrightarrow>
            map_of (fst (extract_itbi_data read_csv clock)) year
              = (if nrows df0 = 0
                    \<or> length (columns (set_scalar (set_scalar (set_scalar df0
                          ''source_year'' (CStr year)) ''extraction_date'' (clock year))
                          ''source_url'' (CStr url))) < 20
                 then None
                 else Some (set_scalar (set_scalar (set_scalar df0
                          ''source_year'' (CStr year)) ''extraction_date'' (clock year))
                          ''source_url'' (CStr url)))
          \<and> (if nrows df0 = 0
                    \<or> length (columns (set_scalar (set_scalar (set_scalar df0
                          ''source_year'' (CStr year)) ''extraction_date'' (clock year))
                          ''source_url'' (CStr url))) < 20
              then (''extract'', year, 0, Some ValueError)
              else (''extract'', year, nrows df0, None))
               \<in> set (snd (extract_itbi_data read_csv clock))
          \<and> map_of (fst (extract_itbi_data_elt read_csv clock)) year
              = (if nrows df0 = 0 then None
                 else Some (set_scalar (set_scalar (set_scalar df0
                          ''source_year'' (CStr year)) ''extraction_timestamp'' (clock year))
                          ''pipeline_type'' (CStr ''ELT'')))
          \<and> (year \<in> set (snd (extract_itbi_data_elt read_csv clock))) = (nrows df0 = 0)"
  proof (intro allI impI)
    fix df0 assume r: "read_csv url = Inr df0"
    note q = p [unfolded extract_one_read extract_one_elt_read r sum.case]
    show "map_of (fst (extract_itbi_data read_csv clock)) year
              = (if nrows df0 = 0
                    \<or> length (columns (set_scalar (set_scalar (set_scalar df0
                          ''source_year'' (CStr year)) ''extraction_date'' (clock year))
                          ''source_url'' (CStr url))) < 20
                 then None
                 else Some (set_scalar (set_scalar (set_scalar df0
                          ''source_year'' (CStr year)) ''extraction_date'' (clock year))
                          ''source_url'' (CStr url)))
          \<and> (if nrows df0 = 0
                    \<or> length (columns (set_scalar (set_scalar (set_scalar df0
                          ''source_year'' (CStr year)) ''extraction_date'' (clock year))
                          ''source_url'' (CStr url))) < 20
              then (''extract'', year, 0, Some ValueError)
              else (''extract'', year, nrows df0, None))
               \<in> set (snd (extract_itbi_data read_csv clock))
          \<and> map_of (fst (extract_itbi_data_elt read_csv clock)) year
              = (if nrows df0 = 0 then None
                 else Some (set_scalar (set_scalar (set_scalar df0
                          ''source_year'' (CStr year)) ''extraction_timestamp'' (clock year))
                          ''pipeline_type'' (CStr ''ELT'')))
          \<and> (year \<in> set (snd (extract_itbi_data_elt read_csv clock))) = (nrows df0 = 0)"
      using q by (simp add: nrows_set_scalar split: if_splits)
  qed
  note h = extraction_by_step [of read_csv clock]
  obtain u1 u2 u3 where us: "datasets_urls = [(''2023'', u1), (''2024'', u2), (''2025'', u3)]"
    by (simp add: datasets_urls_def)
  from h have l: "snd (extract_itbi_data read_csv clock)
     = map (\<lambda>yu. case extract_one read_csv clock yu of
                    Inr df \<Rightarrow> (''extract'', fst yu, nrows df, None)
                  | Inl e \<Rightarrow> (''extract'', fst yu, 0, Some e)) datasets_urls"
    by blast
  have c: "map (\<lambda>entry. fst (snd entry)) (snd (extract_itbi_data read_csv clock))
       = map fst datasets_urls"
    unfolding l by (simp add: comp_def split: sum.splits)
  from h have k1: "map fst (fst (extract_itbi_data read_csv clock))
     = map fst (filter (\<lambda>yu. \<not> isl (extract_one read_csv clock yu)) datasets_urls)"
    and m1: "\<forall>yu \<in> set datasets_urls.
         map_of (fst (extract_itbi_data read_csv clock)) (fst yu)
           = (case extract_one read_csv clock yu of Inr df \<Rightarrow> Some df | Inl e \<Rightarrow> None)"
    and k2: "map fst (fst (extract_itbi_data_elt read_csv clock))
     = map fst (filter (\<lambda>yu. \<not> isl (extract_one_elt read_csv clock yu)) datasets_urls)"
    and m2: "\<forall>yu \<in> set datasets_urls.
         map_of (fst (extract_itbi_data_elt read_csv clock)) (fst yu)
           = (case extract_one_elt read_csv clock yu of Inr df \<Rightarrow> Some df | Inl e \<Rightarrow> None)"
    by blast+
  have d: "map fst (fst (extract_itbi_data read_csv clock))
       = filter (\<lambda>y. map_of (fst (extract_itbi_data read_csv clock)) y \<noteq> None)
           (map fst datasets_urls)"
    unfolding k1 filter_map comp_def
    by (rule arg_cong [where f = "map fst"], rule filter_cong [OF refl])
       (simp add: m1 split: sum.splits)
  have e: "map fst (fst (extract_itbi_data_elt read_csv clock))
       = filter (\<lambda>y. map_of (fst (extract_itbi_data_elt read_csv clock)) y \<noteq> None)
           (map fst datasets_urls)"
    unfolding k2 filter_map comp_def
    by (rule arg_cong [where f = "map fst"], rule filter_cong [OF refl])
       (simp add: m2 split: sum.splits)
  from a b c d e show ?thesis by blast
qed

lemma example_read_csv_results:
  "example_read_csv (snd (datasets_urls ! 0)) = Inl OperationalError"
  "example_read_csv (snd (datasets_urls ! 1)) = Inr wide_frame"
  "example_read_csv (snd (datasets_urls ! 2)) = Inr narrow_frame"
  by (simp_all add: example_read_csv_def datasets_urls_def)

lemma example_urls:
  "(''2023'', snd (datasets_urls ! 0)) \<in> set datasets_urls"
  "(''2024'', snd (datasets_urls ! 1)) \<in> set datasets_urls"
  "(''2025'', snd (datasets_urls ! 2)) \<in> set datasets_urls"
  by (simp_all add: datasets_urls_def)

lemma example_frames_shape:
  "nrows wide_frame = 1"
  "nrows narrow_frame = 1"
  "length (columns (set_scalar (set_scalar (set_scalar wide_frame
      ''source_year'' a) ''extraction_date'' b) ''source_url'' c)) = 20"
  "length (columns (set_scalar (set_scalar (set_scalar narrow_frame
      ''source_year'' a) ''extraction_date'' b) ''source_url'' c)) = 4"
  by (simp_all add: wide_frame_def narrow_frame_def set_scalar_def set_col_def columns_def)

theorem extraction_skips_failed_years_witness:
  "(''2023'', snd (datasets_urls ! 0)) \<in> set datasets_urls
   \<and> example_read_csv (snd (datasets_urls ! 0)) = Inl OperationalError
   \<and> map_of (fst (extract_itbi_data example_read_csv (\<lambda>y. CDate 2025 6 15))) ''2023'' = None
   \<and> (''extract'', ''2023'', 0, Some OperationalError)
        \<in> set (snd (extract_itbi_data example_read_csv (\<lambda>y. CDate 2025 6 15)))
   \<and> map_of (fst (extract_itbi_data_elt example_read_csv (\<lambda>y. CDate 2025 6 15))) ''2023''
        = None
   \<and> ''2023'' \<in> set (snd (extract_itbi_data_elt example_read_csv (\<lambda>y. CDate 2025 6 15)))
   \<and> (''2024'', snd (datasets_urls ! 1)) \<in> set datasets_urls
   \<and> example_read_csv (snd (datasets_urls ! 1)) = Inr wide_frame
   \<and> map_of (fst (extract_itbi_data example_read_csv (\<lambda>y. CDate 2025 6 15))) ''2024''
        = Some (set_scalar (set_scalar (set_scalar wide_frame
                  ''source_year'' (CStr ''2024'')) ''extraction_date'' (CDate 2025 6 15))
                  ''source_url'' (CStr (snd (datasets_urls ! 1))))
   \<and> (''extract'', ''2024'', 1, None)
        \<in> set (snd (extract_itbi_data example_read_csv (\<lambda>y. CDate 2025 6 15)))
   \<and> map_of (fst (extract_itbi_data_elt example_read_csv (\<lambda>y. CDate 2025 6 15))) ''2024''
        = Some (set_scalar (set_scalar (set_scalar wide_frame
                  ''source_year'' (CStr ''2024'')) ''extraction_timestamp'' (CDate 2025 6 15))
                  ''pipeline_type'' (CStr ''ELT''))
   \<and> ''2024'' \<notin> set (snd (extract_itbi_data_elt example_read_csv (\<lambda>y. CDate 2025 6 15)))
   \<and> (''2025'', snd (datasets_urls ! 2)) \<in> set datasets_urls
   \<and> example_read_csv (snd (datasets_urls ! 2)) = Inr narrow_frame
   \<and> map_of (fst (extract_itbi_data example_read_csv (\<lambda>y. CDate 2025 6 15))) ''2025'' = None
   \<and> (''extract'', ''2025'', 0, Some ValueError)
        \<in> set (snd (extract_itbi_data example_read_csv (\<lambda>y. CDate 2025 6 15)))
   \<and> map_of (fst (extract_itbi_data_elt example_read_csv (\<lambda>y. CDate 2025 6 15))) ''2025''
        = Some (set_scalar (set_scalar (set_scalar narrow_frame
                  ''source_year'' (CStr ''2025'')) ''extraction_timestamp'' (CDate 2025 6 15))
                  ''pipeline_type'' (CStr ''ELT''))"
proof -
  note t3 = extraction_skips_failed_years
    [OF example_urls(1), of example_read_csv "\<lambda>y. CDate 2025 6 15",
      THEN conjunct1, THEN spec, THEN mp, OF example_read_csv_results(1)]
  note t4 = extraction_skips_failed_years
    [OF example_urls(2), of example_read_csv "\<lambda>y. CDate 2025 6 15",
      THEN conjunct2, THEN conjunct1, THEN spec, THEN mp, OF example_read_csv_results(2),
      unfolded example_frames_shape]
  note t5 = extraction_skips_failed_years
    [OF example_urls(3), of example_read_csv "\<lambda>y. CDate 2025 6 15",
      THEN conjunct2, THEN conjunct1, THEN spec, THEN mp, OF example_read_csv_results(3),
      unfolded example_frames_shape]
  from t4 have a4: "map_of (fst (extract_itbi_data example_read_csv (\<lambda>y. CDate 2025 6 15)))
        ''2024''
        = Some (set_scalar (set_scalar (set_scalar wide_frame
                  ''source_year'' (CStr ''2024'')) ''extraction_date'' (CDate 2025 6 15))
                  ''source_url'' (CStr (snd (datasets_urls ! 1))))"
    and b4: "(''extract'', ''2024'', 1, None)
        \<in> set (snd (extract_itbi_data example_read_csv (\<lambda>y. CDate 2025 6 15)))"
    and c4: "map_of (fst (extract_itbi_data_elt example_read_csv (\<lambda>y. CDate 2025 6 15)))
        ''2024''
        = Some (set_scalar (set_scalar (set_scalar wide_frame
                  ''source_year'' (CStr ''2024'')) ''extraction_timestamp'' (CDate 2025 6 15))
                  ''pipeline_type'' (CStr ''ELT''))"
    and d4: "''2024'' \<notin> set (snd (extract_itbi_data_elt example_read_csv
                                    (\<lambda>y. CDate 2025 6 15)))"
    by simp_all
  from t5 have a5: "map_of (fst (extract_itbi_data example_read_csv (\<lambda>y. CDate 2025 6 15)))
        ''2025'' = None"
    and b5: "(''extract'', ''2025'', 0, Some ValueError)
        \<in> set (snd (extract_itbi_data example_read_csv (\<lambda>y. CDate 2025 6 15)))"
    and c5: "map_of (fst (extract_itbi_data_elt example_read_csv (\<lambda>y. CDate 2025 6 15)))
        ''2025''
        = Some (set_scalar (set_scalar (set_scalar narrow_frame
                  ''source_year'' (CStr ''2025'')) ''extraction_timestamp'' (CDate 2025 6 15))
                  ''pipeline_type'' (CStr ''ELT''))"
    by simp_all
  from example_urls example_read_csv_results t3 a4 b4 c4 d4 a5 b5 c5 show ?thesis
    by blast
qed

end
